theory Spec2Isabelle
  imports Main
begin

section \<open>Strings and JavaScript truthiness\<close>

text \<open>
  Addresses, keys, origins and chain ids are JavaScript strings. They are modelled as
  \<^typ>\<open>string\<close>; \<open>String.prototype.toLowerCase\<close> is modelled on the ASCII letters, which
  is the alphabet of hexadecimal addresses (a letter outside ASCII is left as it is).
\<close>

definition lower_char :: "char \<Rightarrow> char" where
  "lower_char c =
     (case map_of (zip ''ABCDEFGHIJKLMNOPQRSTUVWXYZ'' ''abcdefghijklmnopqrstuvwxyz'') c of
        Some d \<Rightarrow> d
      | None \<Rightarrow> c)"

definition toLowerCase :: "string \<Rightarrow> string" where
  "toLowerCase s = map lower_char s"

text \<open>
  A value of type \<open>string | null | undefined\<close> is a \<^typ>\<open>string option\<close>. In a
  condition JavaScript takes \<open>null\<close>, \<open>undefined\<close> and the empty string as false.
\<close>

fun truthy :: "string option \<Rightarrow> bool" where
  "truthy None = False"
| "truthy (Some s) = (s \<noteq> [])"

text \<open>The expression \<open>x || null\<close> on such a value.\<close>

definition or_null :: "string option \<Rightarrow> string option" where
  "or_null x = (if truthy x then x else None)"

section \<open>Errors\<close>

text \<open>
  Every \<open>throw\<close> of the source is a value of this type. \<open>Error\<close> carries the message
  of a plain \<open>new Error(message)\<close>; \<open>LibraryError\<close> stands for an exception raised
  inside an external collaborator (ethers, the network registry, the node).
\<close>

datatype error =
    Error string
  | OriginNotAllowed
  | RecordNotFound
  | SessionExpired
  | InvalidParams
  | MethodNotImplemented string
  | UserRejected string
  | UserRejectedTxSignature
  | LibraryError string

section \<open>Wallet containers (model/WalletContainer)\<close>

datatype SeedType = SeedType_privateKey | SeedType_mnemonic

record Mnemonic =
  phrase :: string
  path :: string

record BareWallet =
  mnemonic :: "Mnemonic option"
  privateKey :: string
  address :: string
  name :: "string option"

text \<open>\<open>Partial<BareWallet>\<close>: every field may be missing.\<close>

record PartialBareWallet =
  p_address :: "string option"
  p_privateKey :: "string option"
  p_mnemonic :: "Mnemonic option"
  p_name :: "string option"

text \<open>
  The fields of an \<open>ethers.Wallet\<close> that the source reads. The library itself is an
  external collaborator: its three constructors are parameters. \<open>createRandom\<close> is
  the wallet that the random generator produces in the run under consideration.
\<close>

record EthersWallet =
  ew_privateKey :: string
  ew_address :: string
  ew_mnemonic :: "Mnemonic option"

record Ethers =
  newWallet :: "string \<Rightarrow> error + EthersWallet"
  fromMnemonic :: "string \<Rightarrow> string \<Rightarrow> error + EthersWallet"
  createRandom :: "EthersWallet"

text \<open>
  \<open>walletToObject(wallet: ethers.Wallet | BareWallet)\<close>: the name of an
  \<open>ethers.Wallet\<close> instance is dropped, the name of a plain object is kept.
\<close>

fun walletToObject :: "EthersWallet + BareWallet \<Rightarrow> BareWallet" where
  "walletToObject (Inl w) =
     \<lparr>mnemonic = ew_mnemonic w, privateKey = ew_privateKey w, address = ew_address w,
      name = None\<rparr>"
| "walletToObject (Inr w) =
     \<lparr>mnemonic = mnemonic w, privateKey = privateKey w, address = address w,
      name = name w\<rparr>"

definition fromEthersWallet :: "EthersWallet \<Rightarrow> BareWallet" where
  "fromEthersWallet w =
     \<lparr>mnemonic = ew_mnemonic w, privateKey = ew_privateKey w, address = ew_address w,
      name = None\<rparr>"

definition restoreBareWallet :: "Ethers \<Rightarrow> PartialBareWallet \<Rightarrow> error + BareWallet" where
  "restoreBareWallet E wallet =
     (if truthy (p_address wallet) \<and> truthy (p_privateKey wallet) then
        Inr \<lparr>mnemonic = p_mnemonic wallet,
             privateKey = (case p_privateKey wallet of Some k \<Rightarrow> k | None \<Rightarrow> []),
             address = (case p_address wallet of Some a \<Rightarrow> a | None \<Rightarrow> []),
             name = or_null (p_name wallet)\<rparr>
      else if truthy (p_privateKey wallet) then
        (case newWallet E (case p_privateKey wallet of Some k \<Rightarrow> k | None \<Rightarrow> []) of
           Inl e \<Rightarrow> Inl e
         | Inr w \<Rightarrow> Inr (fromEthersWallet w))
      else
        (case p_mnemonic wallet of
           Some m \<Rightarrow>
             (case fromMnemonic E (phrase m) (path m) of
                Inl e \<Rightarrow> Inl e
              | Inr w \<Rightarrow> Inr (fromEthersWallet w))
         | None \<Rightarrow> Inr (fromEthersWallet (createRandom E))))"

text \<open>
  \<open>Array.prototype.map\<close> with a callback that may throw: the first exception ends
  the loop.
\<close>

fun map_throwing :: "('a \<Rightarrow> error + 'b) \<Rightarrow> 'a list \<Rightarrow> error + 'b list" where
  "map_throwing f [] = Inr []"
| "map_throwing f (x # xs) =
     (case f x of
        Inl e \<Rightarrow> Inl e
      | Inr y \<Rightarrow> (case map_throwing f xs of Inl e \<Rightarrow> Inl e | Inr ys \<Rightarrow> Inr (y # ys)))"

text \<open>
  A container object. The two classes differ in the constant \<open>seedType\<close> and in
  \<open>addWallet\<close>, so the class of an object is read from its \<open>seedType\<close>.
\<close>

record WalletContainer =
  seedType :: SeedType
  wallets :: "BareWallet list"

text \<open>A plain object, a wallet found in a container, passed where a partial wallet is expected.\<close>

definition asPartial :: "BareWallet \<Rightarrow> PartialBareWallet" where
  "asPartial w =
     \<lparr>p_address = Some (address w), p_privateKey = Some (privateKey w),
      p_mnemonic = mnemonic w, p_name = name w\<rparr>"

text \<open>An \<open>ethers.Wallet\<close> passed where a partial wallet is expected: it has no name.\<close>

definition ethersAsPartial :: "EthersWallet \<Rightarrow> PartialBareWallet" where
  "ethersAsPartial w =
     \<lparr>p_address = Some (ew_address w), p_privateKey = Some (ew_privateKey w),
      p_mnemonic = ew_mnemonic w, p_name = None\<rparr>"

definition getFirstWallet :: "WalletContainer \<Rightarrow> BareWallet option" where
  "getFirstWallet c = (case wallets c of [] \<Rightarrow> None | w # _ \<Rightarrow> Some w)"

definition getMnemonic :: "WalletContainer \<Rightarrow> error + Mnemonic option" where
  "getMnemonic c =
     (if seedType c = SeedType_privateKey then Inr None
      else (case getFirstWallet c of
              None \<Rightarrow> Inl (LibraryError ''TypeError: cannot read mnemonic of undefined'')
            | Some w \<Rightarrow> Inr (mnemonic w)))"

definition addWallet :: "WalletContainer \<Rightarrow> BareWallet \<Rightarrow> error + WalletContainer" where
  "addWallet c wallet =
     (case seedType c of
        SeedType_privateKey \<Rightarrow>
          Inl (Error ''PrivateKeyWalletContainer cannot have multiple wallets'')
      | SeedType_mnemonic \<Rightarrow> Inr (c\<lparr>wallets := wallets c @ [wallet]\<rparr>))"

fun findIndex :: "('a \<Rightarrow> bool) \<Rightarrow> 'a list \<Rightarrow> nat option" where
  "findIndex P [] = None"
| "findIndex P (x # xs) =
     (if P x then Some 0 else (case findIndex P xs of None \<Rightarrow> None | Some i \<Rightarrow> Some (Suc i)))"

text \<open>\<open>xs.splice(pos, 1)\<close> for a position inside the array.\<close>

definition splice1 :: "nat \<Rightarrow> 'a list \<Rightarrow> 'a list" where
  "splice1 pos xs = take pos xs @ drop (Suc pos) xs"

definition removeWallet :: "WalletContainer \<Rightarrow> string \<Rightarrow> WalletContainer" where
  "removeWallet c addr =
     (case findIndex (\<lambda>wallet. toLowerCase (address wallet) = toLowerCase addr) (wallets c) of
        None \<Rightarrow> c
      | Some pos \<Rightarrow> c\<lparr>wallets := splice1 pos (wallets c)\<rparr>)"

definition getWalletByAddress :: "WalletContainer \<Rightarrow> string \<Rightarrow> BareWallet option" where
  "getWalletByAddress c addr =
     find (\<lambda>wallet. toLowerCase (address wallet) = toLowerCase addr) (wallets c)"

record PlainWalletContainer =
  plain_seedType :: SeedType
  plain_wallets :: "BareWallet list"

definition toPlainObject :: "WalletContainer \<Rightarrow> PlainWalletContainer" where
  "toPlainObject c =
     \<lparr>plain_seedType = seedType c,
      plain_wallets = map (\<lambda>wallet. walletToObject (Inr wallet)) (wallets c)\<rparr>"

text \<open>
  \<open>new MnemonicWalletContainer(wallets?)\<close>. The elements are typed
  \<open>Pick<BareWallet, 'mnemonic'>\<close> and handed whole to \<open>restoreBareWallet\<close>, which reads
  all four fields of them.
\<close>

definition MnemonicWalletContainer ::
  "Ethers \<Rightarrow> PartialBareWallet list option \<Rightarrow> error + WalletContainer" where
  "MnemonicWalletContainer E ws =
     (case ws of
        None \<Rightarrow>
          (case restoreBareWallet E \<lparr>p_address = None, p_privateKey = None, p_mnemonic = None,
                                     p_name = None\<rparr> of
             Inl e \<Rightarrow> Inl e
           | Inr w \<Rightarrow> Inr \<lparr>seedType = SeedType_mnemonic, wallets = [w]\<rparr>)
      | Some [] \<Rightarrow>
          (case restoreBareWallet E \<lparr>p_address = None, p_privateKey = None, p_mnemonic = None,
                                     p_name = None\<rparr> of
             Inl e \<Rightarrow> Inl e
           | Inr w \<Rightarrow> Inr \<lparr>seedType = SeedType_mnemonic, wallets = [w]\<rparr>)
      | Some xs \<Rightarrow>
          (case map_throwing
                  (\<lambda>wallet.
                     if p_mnemonic wallet = None then
                       Inl (Error ''Mnemonic container is expected to have a wallet with a mnemonic'')
                     else restoreBareWallet E wallet)
                  xs of
             Inl e \<Rightarrow> Inl e
           | Inr rs \<Rightarrow> Inr \<lparr>seedType = SeedType_mnemonic, wallets = rs\<rparr>))"

text \<open>
  \<open>new PrivateKeyWalletContainer(wallets)\<close>. An element is an object with a
  \<open>privateKey\<close>; the guard is \<open>!wallets || wallets.length > 1\<close>, and the message of
  its exception ends with the length it found, which the model leaves out.
\<close>

definition PrivateKeyWalletContainer ::
  "Ethers \<Rightarrow> string option list option \<Rightarrow> error + WalletContainer" where
  "PrivateKeyWalletContainer E ws =
     (case ws of
        None \<Rightarrow> Inl (Error ''Wallets array is expected to have exactly one element'')
      | Some xs \<Rightarrow>
          if length xs > 1 then Inl (Error ''Wallets array is expected to have exactly one element'')
          else
            (case map_throwing
                    (\<lambda>pk.
                       if \<not> truthy pk then
                         Inl (Error ''PrivateKey container is expected to have a wallet with a privateKey'')
                       else
                         (case newWallet E (case pk of Some k \<Rightarrow> k | None \<Rightarrow> []) of
                            Inl e \<Rightarrow> Inl e
                          | Inr w \<Rightarrow> restoreBareWallet E (ethersAsPartial w)))
                    xs of
               Inl e \<Rightarrow> Inl e
             | Inr rs \<Rightarrow> Inr \<lparr>seedType = SeedType_privateKey, wallets = rs\<rparr>))"

section \<open>The wallet record (model/types, WalletRecord)\<close>

text \<open>
  Modelled from the spec: the types \<open>WalletGroup\<close>, \<open>Permission\<close> and \<open>WalletRecord\<close>
  (model/types is not under src/), after the data model of the spec and with the field
  names that the controller reads: \<open>record.walletManager.groups\<close>,
  \<open>record.walletManager.currentAddress\<close>, \<open>record.permissions[origin].addresses\<close>.
  The permission object is keyed by origin; it is an association list read with
  \<^const>\<open>map_of\<close>. Its keys are origins of web pages (scheme and host), none of
  which is the name of a property that every JavaScript object inherits. A \<open>Chain\<close>
  is an identifier compared by value.
\<close>

type_synonym Chain = string

record WalletGroup =
  group_id :: string
  walletContainer :: WalletContainer
  lastBackedUp :: "nat option"
  group_name :: string

record Permission =
  addresses :: "string list"
  chain :: "Chain option"

record WalletManager =
  groups :: "WalletGroup list"
  currentAddress :: "string option"

record WalletRecord =
  walletManager :: WalletManager
  permissions :: "(string \<times> Permission) list"

text \<open>Writing one key of an object: an existing key keeps its place, a new one goes last.\<close>

fun assign :: "'k \<Rightarrow> 'v \<Rightarrow> ('k \<times> 'v) list \<Rightarrow> ('k \<times> 'v) list" where
  "assign k v [] = [(k, v)]"
| "assign k v ((k', v') # kvs) = (if k' = k then (k, v) # kvs else (k', v') # assign k v kvs)"

text \<open>
  Modelled from the spec: \<open>normalizeAddress\<close> (src/shared/normalizeAddress is not under
  src/). The spec calls the comparisons made with it case-insensitive.
\<close>

definition normalizeAddress :: "string \<Rightarrow> string" where
  "normalizeAddress a = toLowerCase a"

text \<open>
  Modelled from the spec: \<open>WalletRecordModel.getWalletByAddress\<close> (WalletRecord is not
  under src/): the wallet with that address, compared without case, in the first group
  whose container has one.
\<close>

fun wallet_in_groups :: "WalletGroup list \<Rightarrow> string \<Rightarrow> BareWallet option" where
  "wallet_in_groups [] a = None"
| "wallet_in_groups (g # gs) a =
     (case getWalletByAddress (walletContainer g) a of
        Some w \<Rightarrow> Some w
      | None \<Rightarrow> wallet_in_groups gs a)"

definition Model_getWalletByAddress :: "WalletRecord \<Rightarrow> string \<Rightarrow> BareWallet option" where
  "Model_getWalletByAddress r a = wallet_in_groups (groups (walletManager r)) a"

text \<open>
  Modelled from the spec: \<open>WalletRecordModel.setCurrentAddress\<close> (not under src/):
  ``fails if the address is not owned by any group''; otherwise the new record differs
  from the old one in \<open>currentAddress\<close> only.
\<close>

definition Model_setCurrentAddress :: "WalletRecord \<Rightarrow> string \<Rightarrow> error + WalletRecord" where
  "Model_setCurrentAddress r a =
     (case Model_getWalletByAddress r a of
        None \<Rightarrow> Inl (Error ''Address is not owned by any wallet group'')
      | Some _ \<Rightarrow> Inr (r\<lparr>walletManager := (walletManager r)\<lparr>currentAddress := Some a\<rparr>\<rparr>))"

text \<open>
  Modelled from the spec: \<open>WalletRecordModel.addPermission\<close> (not under src/), a
  ``permission-map edit'': the address joins the set of addresses of the origin, whose
  entry is created when there is none. Nothing else of the record changes.
\<close>

definition Model_addPermission :: "WalletRecord \<Rightarrow> string \<Rightarrow> string \<Rightarrow> WalletRecord" where
  "Model_addPermission r a origin =
     (case map_of (permissions r) origin of
        None \<Rightarrow>
          r\<lparr>permissions := assign origin \<lparr>addresses = [a], chain = None\<rparr> (permissions r)\<rparr>
      | Some p \<Rightarrow>
          r\<lparr>permissions :=
               assign origin
                 (p\<lparr>addresses := (if a \<in> set (addresses p) then addresses p
                                    else addresses p @ [a])\<rparr>)
                 (permissions r)\<rparr>)"

text \<open>
  Modelled from the spec: \<open>WalletRecordModel.getChainForOrigin\<close> and
  \<open>setChainForOrigin\<close> (not under src/): a ``per-origin chain map; unset origin
  resolves to a documented default chain'', and ``\<open>setChainForOrigin(C, O)\<close> then
  \<open>getChainForOrigin(O)\<close> returns \<open>C\<close>; other origins remain at their previous
  value''. The default chain is Ethereum, the chain whose id \<open>0x1\<close> the controller
  answers when it has no record.
\<close>

definition default_chain :: Chain where
  "default_chain = ''ethereum''"

definition Model_getChainForOrigin :: "WalletRecord \<Rightarrow> string \<Rightarrow> Chain" where
  "Model_getChainForOrigin r origin =
     (case map_of (permissions r) origin of
        None \<Rightarrow> default_chain
      | Some p \<Rightarrow> (case chain p of None \<Rightarrow> default_chain | Some c \<Rightarrow> c))"

definition Model_setChainForOrigin :: "WalletRecord \<Rightarrow> Chain \<Rightarrow> string \<Rightarrow> WalletRecord" where
  "Model_setChainForOrigin r c origin =
     (case map_of (permissions r) origin of
        None \<Rightarrow>
          r\<lparr>permissions := assign origin \<lparr>addresses = [], chain = Some c\<rparr> (permissions r)\<rparr>
      | Some p \<Rightarrow> r\<lparr>permissions := assign origin (p\<lparr>chain := Some c\<rparr>) (permissions r)\<rparr>)"

section \<open>External collaborators of the controller\<close>

text \<open>
  An incoming transaction: the two fields that the controller inspects, and the rest of
  the object as one value. A transaction response is the value that the node returns.
\<close>

record IncomingTransaction =
  tx_from :: "string option"
  tx_chainId :: "string option"
  tx_rest :: string

type_synonym TransactionResponse = string

text \<open>A \<open>CryptoKey\<close> is an object: as a condition it is true, and only \<open>null\<close> is false.\<close>

datatype CryptoKey = CryptoKey string

text \<open>The parameter \<open>chainId: string | number\<close> of \<open>wallet_switchEthereumChain\<close>.\<close>

datatype ChainIdParam = ChainIdString string | ChainIdNumber nat

text \<open>The network registry, the value that \<open>networksStore.load()\<close> resolves to.\<close>

record Networks =
  getChainId :: "Chain \<Rightarrow> error + string"
  getChainById :: "string \<Rightarrow> error + Chain"
  getRpcUrlInternal :: "Chain \<Rightarrow> error + string"

text \<open>
  What the controller imports and src/ does not hold: the constant \<open>INTERNAL_ORIGIN\<close>, the
  network registry, the helpers of modules/ethereum, the persistence gateway, the signer
  of the ethers library and the two reveal functions of the record model. Each is a
  parameter; a result of type \<open>error + _\<close> is a call that may throw.
\<close>

record Env =
  INTERNAL_ORIGIN :: string
  networksStore_load :: "error + Networks"
  hexValue :: "ChainIdParam \<Rightarrow> error + string"
  getTransactionChainId :: "IncomingTransaction \<Rightarrow> string option"
  prepareTransaction :: "IncomingTransaction \<Rightarrow> IncomingTransaction"
  hasGasPrice :: "IncomingTransaction \<Rightarrow> bool"
  fetchAndAssignGasPrice :: "IncomingTransaction \<Rightarrow> error + IncomingTransaction"
  signer_sendTransaction ::
    "BareWallet \<Rightarrow> string \<Rightarrow> IncomingTransaction \<Rightarrow> error + TransactionResponse"
  removeSignature :: "TransactionResponse \<Rightarrow> TransactionResponse"
  walletStore_read :: "string \<Rightarrow> string \<Rightarrow> error + WalletRecord option"
  Model_getRecoveryPhrase :: "WalletRecord \<Rightarrow> string \<Rightarrow> CryptoKey \<Rightarrow> error + Mnemonic"
  Model_getPrivateKey :: "WalletRecord \<Rightarrow> string \<Rightarrow> error + string"

section \<open>The controller (class Wallet)\<close>

text \<open>
  The origin of a call context is a string or the symbol \<open>INTERNAL_ORIGIN_SYMBOL\<close>.
  A public method takes a \<open>Partial<ChannelContext>\<close>, whose origin is a string; a wallet
  method takes a \<open>Partial<ChannelContext | PrivateChannelContext>\<close>, whose origin may be
  the symbol too. In both the context and its origin may be missing.
\<close>

datatype Origin = OriginString string | INTERNAL_ORIGIN_SYMBOL

record ChannelContext =
  origin :: "string option"

record WalletContext =
  any_origin :: "Origin option"

definition widen :: "ChannelContext option \<Rightarrow> WalletContext option" where
  "widen context = map_option (\<lambda>c. \<lparr>any_origin = map_option OriginString (origin c)\<rparr>) context"

definition INTERNAL_SYMBOL_CONTEXT :: "WalletContext option" where
  "INTERNAL_SYMBOL_CONTEXT = Some \<lparr>any_origin = Some INTERNAL_ORIGIN_SYMBOL\<rparr>"

text \<open>What the controller does to the world around it, in the order it does it.\<close>

datatype effect =
    Emit_recordUpdated
  | Emit_currentAddressChange "string list"
  | Emit_chainChanged Chain string
  | Emit_permissionsUpdated
  | Emit_pendingTransactionCreated TransactionResponse
  | WalletStore_read string string
  | WalletStore_save string string WalletRecord
  | NetworksStore_load
  | NotificationWindow_open string string
  | Console_warn string
  | Call_fetchAndAssignGasPrice IncomingTransaction
  | Call_signer_sendTransaction string IncomingTransaction

text \<open>
  The fields of a \<open>Wallet\<close> object (\<open>walletRecord\<close> is the field \<open>record\<close>, and
  \<open>seedPhraseExpiryTimer\<close> is the time at which the pending timeout is due, if one is
  pending), and with them the clock in milliseconds and the effects so far, oldest first.
\<close>

record Wallet =
  wallet_id :: string
  encryptionKey :: "string option"
  seedPhraseEncryptionKey :: "CryptoKey option"
  seedPhraseExpiryTimer :: "nat option"
  walletRecord :: "WalletRecord option"
  now :: nat
  effects :: "effect list"

definition perform :: "effect list \<Rightarrow> Wallet \<Rightarrow> Wallet" where
  "perform es w = w\<lparr>effects := effects w @ es\<rparr>"

subsection \<open>Guards and permissions\<close>

text \<open>A guard returns the exception that it throws, if it throws.\<close>

definition ensureRecord :: "WalletRecord option \<Rightarrow> error option" where
  "ensureRecord r = (case r of None \<Rightarrow> Some RecordNotFound | Some _ \<Rightarrow> None)"

definition verifyInternalOrigin :: "Env \<Rightarrow> WalletContext option \<Rightarrow> error option" where
  "verifyInternalOrigin env context =
     (case context of
        None \<Rightarrow> Some OriginNotAllowed
      | Some c \<Rightarrow>
          (case any_origin c of
             None \<Rightarrow> Some OriginNotAllowed
           | Some INTERNAL_ORIGIN_SYMBOL \<Rightarrow> None
           | Some (OriginString s) \<Rightarrow>
               if s \<noteq> INTERNAL_ORIGIN env then Some OriginNotAllowed else None))"

definition allowedOrigin ::
  "Env \<Rightarrow> Wallet \<Rightarrow> ChannelContext option \<Rightarrow> string \<Rightarrow> error + bool" where
  "allowedOrigin env w context addr =
     (case context of
        None \<Rightarrow> Inl (Error ''This method requires context'')
      | Some c \<Rightarrow>
          (case origin c of
             None \<Rightarrow> Inl (Error ''This method requires context'')
           | Some orig \<Rightarrow>
               if orig = [] then Inl (Error ''This method requires context'')
               else if orig = INTERNAL_ORIGIN env then Inr True
               else
                 Inr (case walletRecord w of
                        None \<Rightarrow> False
                      | Some r \<Rightarrow>
                          (case map_of (permissions r) orig of
                             None \<Rightarrow> False
                           | Some p \<Rightarrow> addr \<in> set (addresses p)))))"

definition readCurrentAddress :: "Wallet \<Rightarrow> string option" where
  "readCurrentAddress w =
     (case walletRecord w of
        None \<Rightarrow> None
      | Some r \<Rightarrow> or_null (currentAddress (walletManager r)))"

definition ensureCurrentAddress :: "Wallet \<Rightarrow> error + string" where
  "ensureCurrentAddress w =
     (case readCurrentAddress w of
        None \<Rightarrow> Inl (Error ''Wallet is not initialized'')
      | Some a \<Rightarrow> Inr a)"

subsection \<open>Writing the record\<close>

text \<open>
  \<open>updateWalletStore\<close> is an \<open>async\<close> method that no caller awaits: when the
  encryption key is missing its promise is rejected and nobody sees the exception.
  It is returned here next to the state, and the callers drop it as the source does.
\<close>

definition updateWalletStore :: "Wallet \<Rightarrow> WalletRecord \<Rightarrow> error option \<times> Wallet" where
  "updateWalletStore w r =
     (case encryptionKey w of
        None \<Rightarrow> (Some (Error ''Cannot save pending wallet: encryptionKey is null''), w)
      | Some k \<Rightarrow>
          if k = [] then (Some (Error ''Cannot save pending wallet: encryptionKey is null''), w)
          else (None, perform [WalletStore_save (wallet_id w) k r] w))"

text \<open>The effects that \<open>updateWalletStore\<close> adds: one write, or none without a key.\<close>

definition saved :: "Wallet \<Rightarrow> WalletRecord \<Rightarrow> effect list" where
  "saved w r =
     (case encryptionKey w of
        None \<Rightarrow> []
      | Some k \<Rightarrow> if k = [] then [] else [WalletStore_save (wallet_id w) k r])"

definition acceptOrigin :: "Wallet \<Rightarrow> string \<Rightarrow> string \<Rightarrow> error option \<times> Wallet" where
  "acceptOrigin w orig addr =
     (case walletRecord w of
        None \<Rightarrow> (Some RecordNotFound, w)
      | Some r \<Rightarrow>
          (let r' = Model_addPermission r addr orig;
               w1 = snd (updateWalletStore (w\<lparr>walletRecord := Some r'\<rparr>) r')
           in (None, perform [Emit_permissionsUpdated] w1)))"

definition setCurrentAddress ::
  "Env \<Rightarrow> Wallet \<Rightarrow> string \<Rightarrow> WalletContext option \<Rightarrow> error option \<times> Wallet" where
  "setCurrentAddress env w addr context =
     (case verifyInternalOrigin env context of
        Some e \<Rightarrow> (Some e, w)
      | None \<Rightarrow>
          (case walletRecord w of
             None \<Rightarrow> (Some RecordNotFound, w)
           | Some r \<Rightarrow>
               (case Model_setCurrentAddress r addr of
                  Inl e \<Rightarrow> (Some e, w)
                | Inr r' \<Rightarrow>
                    (let w1 = snd (updateWalletStore (w\<lparr>walletRecord := Some r'\<rparr>) r')
                     in (None,
                         perform
                           [Emit_currentAddressChange
                              (case or_null (currentAddress (walletManager r')) of
                                 None \<Rightarrow> []
                               | Some a \<Rightarrow> [a])]
                           w1)))))"

subsection \<open>Chain per origin\<close>

definition getChainIdForOrigin :: "Env \<Rightarrow> Wallet \<Rightarrow> string \<Rightarrow> (error + string) \<times> Wallet" where
  "getChainIdForOrigin env w orig =
     (case walletRecord w of
        None \<Rightarrow> (Inr ''0x1'', w)
      | Some r \<Rightarrow>
          (let c = Model_getChainForOrigin r orig;
               w1 = perform [NetworksStore_load] w
           in (case networksStore_load env of
                 Inl e \<Rightarrow> (Inl e, w1)
               | Inr networks \<Rightarrow> (getChainId networks c, w1))))"

definition setChainForOrigin :: "Wallet \<Rightarrow> Chain \<Rightarrow> string \<Rightarrow> error option \<times> Wallet" where
  "setChainForOrigin w c orig =
     (case walletRecord w of
        None \<Rightarrow> (Some RecordNotFound, w)
      | Some r \<Rightarrow>
          (let r' = Model_setChainForOrigin r c orig;
               w1 = snd (updateWalletStore (w\<lparr>walletRecord := Some r'\<rparr>) r')
           in (None, perform [Emit_chainChanged c orig] w1)))"

subsection \<open>The session key\<close>

definition removeSeedPhraseEncryptionKey :: "Wallet \<Rightarrow> Wallet" where
  "removeSeedPhraseEncryptionKey w = w\<lparr>seedPhraseEncryptionKey := None\<rparr>"

text \<open>
  \<open>clearTimeout\<close> of the pending timeout, then \<open>setTimeout\<close> of a new one, due
  \<open>1000 * 120\<close> milliseconds from now.
\<close>

definition setExpirationForSeedPhraseEncryptionKey :: "Wallet \<Rightarrow> Wallet" where
  "setExpirationForSeedPhraseEncryptionKey w =
     w\<lparr>seedPhraseExpiryTimer := Some (now w + 1000 * 120)\<rparr>"

text \<open>
  Time passes: the clock advances, and a timeout that has become due runs its callback,
  which removes the session key. This is the contract of \<open>setTimeout\<close>, taken as exact:
  the callback has run once its delay is over.
\<close>

definition elapse :: "Wallet \<Rightarrow> nat \<Rightarrow> Wallet" where
  "elapse w ms =
     (let w1 = w\<lparr>now := now w + ms\<rparr>
      in (case seedPhraseExpiryTimer w1 of
            None \<Rightarrow> w1
          | Some due \<Rightarrow>
              if due \<le> now w1
              then removeSeedPhraseEncryptionKey (w1\<lparr>seedPhraseExpiryTimer := None\<rparr>)
              else w1))"

definition syncWithWalletStore :: "Env \<Rightarrow> Wallet \<Rightarrow> error option \<times> Wallet" where
  "syncWithWalletStore env w =
     (case encryptionKey w of
        None \<Rightarrow> (None, w)
      | Some k \<Rightarrow>
          if k = [] then (None, w)
          else
            (let w1 = perform [WalletStore_read (wallet_id w) k] w
             in (case walletStore_read env (wallet_id w) k of
                   Inl e \<Rightarrow> (Some e, w1)
                 | Inr r \<Rightarrow>
                     (None,
                      (case r of
                         None \<Rightarrow> w1\<lparr>walletRecord := None\<rparr>
                       | Some _ \<Rightarrow> perform [Emit_recordUpdated] (w1\<lparr>walletRecord := r\<rparr>))))))"

definition updateCredentials ::
  "Env \<Rightarrow> Wallet \<Rightarrow> string \<Rightarrow> string \<Rightarrow> CryptoKey option \<Rightarrow> error option \<times> Wallet" where
  "updateCredentials env w ident key sessionKey =
     syncWithWalletStore env
       (setExpirationForSeedPhraseEncryptionKey
          (w\<lparr>wallet_id := ident, encryptionKey := Some key,
             seedPhraseEncryptionKey := sessionKey\<rparr>))"

definition hasSeedPhraseEncryptionKey :: "Wallet \<Rightarrow> bool" where
  "hasSeedPhraseEncryptionKey w = (seedPhraseEncryptionKey w \<noteq> None)"

definition getRecoveryPhrase ::
  "Env \<Rightarrow> Wallet \<Rightarrow> string \<Rightarrow> WalletContext option \<Rightarrow> error + Mnemonic" where
  "getRecoveryPhrase env w groupId context =
     (case verifyInternalOrigin env context of
        Some e \<Rightarrow> Inl e
      | None \<Rightarrow>
          (case walletRecord w of
             None \<Rightarrow> Inl RecordNotFound
           | Some r \<Rightarrow>
               (case seedPhraseEncryptionKey w of
                  None \<Rightarrow> Inl SessionExpired
                | Some k \<Rightarrow> Model_getRecoveryPhrase env r groupId k)))"

definition getPrivateKey ::
  "Env \<Rightarrow> Wallet \<Rightarrow> string \<Rightarrow> WalletContext option \<Rightarrow> error + string" where
  "getPrivateKey env w addr context =
     (case verifyInternalOrigin env context of
        Some e \<Rightarrow> Inl e
      | None \<Rightarrow>
          (case walletRecord w of
             None \<Rightarrow> Inl RecordNotFound
           | Some r \<Rightarrow>
               (case seedPhraseEncryptionKey w of
                  None \<Rightarrow> Inl SessionExpired
                | Some k \<Rightarrow> Model_getPrivateKey env r addr)))"

subsection \<open>Sending a transaction\<close>

text \<open>A provider is known by the URL of its node, a signer by its wallet and that URL.\<close>

definition getProvider :: "Env \<Rightarrow> Wallet \<Rightarrow> string \<Rightarrow> (error + string) \<times> Wallet" where
  "getProvider env w chainId =
     (let w1 = perform [NetworksStore_load] w
      in (case networksStore_load env of
            Inl e \<Rightarrow> (Inl e, w1)
          | Inr networks \<Rightarrow>
              (case getChainById networks chainId of
                 Inl e \<Rightarrow> (Inl e, w1)
               | Inr c \<Rightarrow> (getRpcUrlInternal networks c, w1))))"

definition getSigner ::
  "Env \<Rightarrow> Wallet \<Rightarrow> string \<Rightarrow> (error + BareWallet \<times> string) \<times> Wallet" where
  "getSigner env w chainId =
     (case walletRecord w of
        None \<Rightarrow> (Inl RecordNotFound, w)
      | Some r \<Rightarrow>
          (case (case readCurrentAddress w of
                   None \<Rightarrow> None
                 | Some a \<Rightarrow> Model_getWalletByAddress r a) of
             None \<Rightarrow> (Inl (Error ''Wallet is not initialized''), w)
           | Some currentWallet \<Rightarrow>
               (case getProvider env w chainId of
                  (Inl e, w1) \<Rightarrow> (Inl e, w1)
                | (Inr nodeUrl, w1) \<Rightarrow> (Inr (currentWallet, nodeUrl), w1))))"

text \<open>
  The second half of \<open>sendTransaction\<close>, from the call of \<open>prepareTransaction\<close> to the
  end: gas price, signer, submission, and the event with the response stripped of its
  signature.
\<close>

definition sendTransaction_submit ::
  "Env \<Rightarrow> Wallet \<Rightarrow> string \<Rightarrow> IncomingTransaction \<Rightarrow> (error + TransactionResponse) \<times> Wallet" where
  "sendTransaction_submit env w chainId incomingTransaction =
     (let transaction = prepareTransaction env incomingTransaction
      in (case (if \<not> hasGasPrice env transaction
                then (fetchAndAssignGasPrice env transaction,
                      perform [Call_fetchAndAssignGasPrice transaction] w)
                else (Inr transaction, w)) of
            (Inl e, w1) \<Rightarrow> (Inl e, w1)
          | (Inr transaction', w1) \<Rightarrow>
              (case getSigner env w1 chainId of
                 (Inl e, w2) \<Rightarrow> (Inl e, w2)
               | (Inr (wallet, nodeUrl), w2) \<Rightarrow>
                   (let w3 = perform [Call_signer_sendTransaction nodeUrl transaction'] w2
                    in (case signer_sendTransaction env wallet nodeUrl transaction' of
                          Inl e \<Rightarrow> (Inl e, w3)
                        | Inr transactionResponse \<Rightarrow>
                            (let safeTx = removeSignature env transactionResponse
                             in (Inr safeTx,
                                 perform [Emit_pendingTransactionCreated safeTx] w3)))))))"

text \<open>
  \<open>sendTransaction\<close>. The messages of its exceptions are the source's, without the
  quotation marks around the word from.
\<close>

definition sendTransaction ::
  "Env \<Rightarrow> Wallet \<Rightarrow> IncomingTransaction \<Rightarrow> ChannelContext option \<Rightarrow> string \<Rightarrow>
   (error + TransactionResponse) \<times> Wallet" where
  "sendTransaction env w incomingTransaction context transactionOrigin =
     (case verifyInternalOrigin env (widen context) of
        Some e \<Rightarrow> (Inl e, w)
      | None \<Rightarrow>
          (case tx_from incomingTransaction of
             None \<Rightarrow>
               (Inl (Error ''from field is missing from the transaction object. Send from current address?''), w)
           | Some sender \<Rightarrow>
               if sender = [] then
                 (Inl (Error ''from field is missing from the transaction object. Send from current address?''), w)
               else
                 (case ensureCurrentAddress w of
                    Inl e \<Rightarrow> (Inl e, w)
                  | Inr current \<Rightarrow>
                      if normalizeAddress sender \<noteq> normalizeAddress current then
                        (Inl (Error ''transaction from field is different from currently selected address''), w)
                      else
                        (case getChainIdForOrigin env w transactionOrigin of
                           (Inl e, w1) \<Rightarrow> (Inl e, w1)
                         | (Inr chainId, w1) \<Rightarrow>
                             (let targetChainId = getTransactionChainId env incomingTransaction
                              in if truthy targetChainId \<and> Some chainId \<noteq> targetChainId then
                                   (Inl (Error ''chainId in transaction object is different from current chainId''), w1)
                                 else if targetChainId = None then
                                   sendTransaction_submit env
                                     (perform [Console_warn ''chainId field is missing from transaction object''] w1)
                                     chainId
                                     (incomingTransaction\<lparr>tx_chainId := Some chainId\<rparr>)
                                 else sendTransaction_submit env w1 chainId incomingTransaction)))))"

subsection \<open>The public controller (class PublicController)\<close>

definition eth_accounts :: "Env \<Rightarrow> Wallet \<Rightarrow> ChannelContext option \<Rightarrow> error + string list" where
  "eth_accounts env w context =
     (case readCurrentAddress w of
        None \<Rightarrow> Inr []
      | Some current \<Rightarrow>
          (case allowedOrigin env w context current of
             Inl e \<Rightarrow> Inl e
           | Inr allowed \<Rightarrow> Inr (if allowed then [current] else [])))"

text \<open>
  A method that opens the confirmation window returns a promise that the window settles
  later: such a call is \<open>AwaitingConfirmation\<close>, and the two callbacks handed to the
  window are functions of their own.
\<close>

datatype 'a reply = Returned 'a | AwaitingConfirmation

text \<open>\<open>context.origin\<close>, read where the context is known to have one.\<close>

definition context_origin :: "ChannelContext option \<Rightarrow> string" where
  "context_origin context =
     (case context of
        None \<Rightarrow> []
      | Some c \<Rightarrow> (case origin c of None \<Rightarrow> [] | Some orig \<Rightarrow> orig))"

definition eth_requestAccounts ::
  "Env \<Rightarrow> Wallet \<Rightarrow> ChannelContext option \<Rightarrow> (error + string list reply) \<times> Wallet" where
  "eth_requestAccounts env w context =
     (case (case readCurrentAddress w of
              None \<Rightarrow> Inr None
            | Some current \<Rightarrow>
                (case allowedOrigin env w context current of
                   Inl e \<Rightarrow> Inl e
                 | Inr allowed \<Rightarrow> Inr (if allowed then Some current else None))) of
        Inl e \<Rightarrow> (Inl e, w)
      | Inr (Some current) \<Rightarrow> (Inr (Returned [current]), w)
      | Inr None \<Rightarrow>
          if context_origin context = [] then (Inl (Error ''This method requires origin''), w)
          else
            (Inr AwaitingConfirmation,
             perform
               [NotificationWindow_open ''/requestAccounts'' (''?origin='' @ context_origin context)]
               w))"

text \<open>
  The callback \<open>onResolve\<close> of that window, with the \<open>context\<close> and the \<open>origin\<close> of
  its closure. \<open>acceptOrigin\<close> is not awaited, so an exception of it is lost.
\<close>

definition eth_requestAccounts_onResolve ::
  "Env \<Rightarrow> Wallet \<Rightarrow> ChannelContext option \<Rightarrow> string \<Rightarrow> string option \<Rightarrow>
   (error + string list) \<times> Wallet" where
  "eth_requestAccounts_onResolve env w context orig addr =
     (case addr of
        None \<Rightarrow> (Inl (Error ''Confirmation resolved with invalid arguments''), w)
      | Some a \<Rightarrow>
          if a = [] then (Inl (Error ''Confirmation resolved with invalid arguments''), w)
          else
            (case ensureCurrentAddress w of
               Inl e \<Rightarrow> (Inl e, w)
             | Inr current \<Rightarrow>
                 (case (if normalizeAddress a \<noteq> normalizeAddress current
                        then setCurrentAddress env w a INTERNAL_SYMBOL_CONTEXT
                        else (None, w)) of
                    (Some e, w1) \<Rightarrow> (Inl e, w1)
                  | (None, w1) \<Rightarrow>
                      (let w2 = snd (acceptOrigin w1 orig a)
                       in (eth_accounts env w2 context, w2)))))"

definition eth_requestAccounts_onDismiss :: "error" where
  "eth_requestAccounts_onDismiss = UserRejected ''User Rejected the Request''"

definition wallet_switchEthereumChain ::
  "Env \<Rightarrow> Wallet \<Rightarrow> ChainIdParam \<Rightarrow> ChannelContext option \<Rightarrow> (error + unit) \<times> Wallet" where
  "wallet_switchEthereumChain env w chainIdParameter context =
     (case readCurrentAddress w of
        None \<Rightarrow> (Inl (Error ''Wallet is not initialized''), w)
      | Some current \<Rightarrow>
          (case allowedOrigin env w context current of
             Inl e \<Rightarrow> (Inl e, w)
           | Inr allowed \<Rightarrow>
               if \<not> allowed then (Inl OriginNotAllowed, w)
               else
                 (case hexValue env chainIdParameter of
                    Inl e \<Rightarrow> (Inl e, w)
                  | Inr chainId \<Rightarrow>
                      (case getChainIdForOrigin env w (context_origin context) of
                         (Inl e, w1) \<Rightarrow> (Inl e, w1)
                       | (Inr currentChainIdForThisOrigin, w1) \<Rightarrow>
                           if chainId = currentChainIdForThisOrigin then (Inr (), w1)
                           else
                             (let w2 = perform [NetworksStore_load] w1
                              in (case networksStore_load env of
                                    Inl e \<Rightarrow> (Inl e, w2)
                                  | Inr networks \<Rightarrow>
                                      (case getChainById networks chainId of
                                         Inl e \<Rightarrow> (Inl e, w2)
                                       | Inr c \<Rightarrow>
                                           (case setChainForOrigin w2 c (context_origin context) of
                                              (Some e, w3) \<Rightarrow> (Inl e, w3)
                                            | (None, w3) \<Rightarrow> (Inr (), w3)))))))))"

subsection \<open>Sequences of calls\<close>

text \<open>
  A history of the controller: calls of the methods that read or write the session key,
  and time passing between them. No other method of the class assigns a key to
  \<open>seedPhraseEncryptionKey\<close> or sets the timeout (\<open>savePendingWallet\<close> assigns
  \<open>null\<close> to the key).
\<close>

datatype call =
    Call_updateCredentials string string "CryptoKey option"
  | Call_removeSeedPhraseEncryptionKey
  | Call_getPrivateKey string "WalletContext option"
  | Call_getRecoveryPhrase string "WalletContext option"
  | Call_hasSeedPhraseEncryptionKey
  | Wait nat

fun step :: "Env \<Rightarrow> Wallet \<Rightarrow> call \<Rightarrow> Wallet" where
  "step env w (Call_updateCredentials ident key sessionKey) =
     snd (updateCredentials env w ident key sessionKey)"
| "step env w Call_removeSeedPhraseEncryptionKey = removeSeedPhraseEncryptionKey w"
| "step env w (Call_getPrivateKey addr context) = w"
| "step env w (Call_getRecoveryPhrase groupId context) = w"
| "step env w Call_hasSeedPhraseEncryptionKey = w"
| "step env w (Wait ms) = elapse w ms"

definition run :: "Env \<Rightarrow> Wallet \<Rightarrow> call list \<Rightarrow> Wallet" where
  "run env w cs = foldl (step env) w cs"

fun reestablishes :: "call \<Rightarrow> bool" where
  "reestablishes (Call_updateCredentials ident key sessionKey) = True"
| "reestablishes c = False"

fun waited :: "call list \<Rightarrow> nat" where
  "waited [] = 0"
| "waited (Wait ms # cs) = ms + waited cs"
| "waited (c # cs) = waited cs"

text \<open>An instance of the library for concrete runs: keys and phrases are their own addresses.\<close>

definition ethers_example :: Ethers where
  "ethers_example =
     \<lparr>newWallet = (\<lambda>k. if k = ''bad'' then Inl (LibraryError ''invalid private key'')
                        else Inr \<lparr>ew_privateKey = k, ew_address = ''0x'' @ k, ew_mnemonic = None\<rparr>),
      fromMnemonic = (\<lambda>ph pa. Inr \<lparr>ew_privateKey = ph @ pa, ew_address = ''0x'' @ ph @ pa,
                                    ew_mnemonic = Some \<lparr>phrase = ph, path = pa\<rparr>\<rparr>),
      createRandom = \<lparr>ew_privateKey = ''r'', ew_address = ''0xr'',
                      ew_mnemonic = Some \<lparr>phrase = ''random'', path = ''m''\<rparr>\<rparr>\<rparr>"

text \<open>Containers for concrete runs.\<close>

definition wallet_main :: BareWallet where
  "wallet_main =
     \<lparr>mnemonic = Some \<lparr>phrase = ''legal winner thank year'', path = ''m/44/60/0/0/0''\<rparr>,
      privateKey = ''0x01'', address = ''0xAbC1'', name = Some ''Main''\<rparr>"

definition wallet_second :: BareWallet where
  "wallet_second =
     \<lparr>mnemonic = Some \<lparr>phrase = ''legal winner thank year'', path = ''m/44/60/0/0/1''\<rparr>,
      privateKey = ''0x02'', address = ''0xdEf2'', name = None\<rparr>"

definition container_two :: WalletContainer where
  "container_two = \<lparr>seedType = SeedType_mnemonic, wallets = [wallet_main, wallet_second]\<rparr>"

definition wallet_third :: BareWallet where
  "wallet_third =
     \<lparr>mnemonic = Some \<lparr>phrase = ''legal winner thank year'', path = ''m/44/60/0/0/2''\<rparr>,
      privateKey = ''0x03'', address = ''0x7A93'', name = Some ''Savings''\<rparr>"

definition container_three :: WalletContainer where
  "container_three =
     \<lparr>seedType = SeedType_mnemonic, wallets = [wallet_main, wallet_second, wallet_third]\<rparr>"

text \<open>The same first wallet after it was renamed to the empty string.\<close>

definition container_empty_name :: WalletContainer where
  "container_empty_name =
     \<lparr>seedType = SeedType_mnemonic, wallets = [wallet_main\<lparr>name := Some []\<rparr>]\<rparr>"

text \<open>A registry, an environment, a record and a controller for concrete runs.\<close>

definition record_example :: WalletRecord where
  "record_example =
     \<lparr>walletManager =
        \<lparr>groups = [\<lparr>group_id = ''g1'', walletContainer = container_two, lastBackedUp = None,
                     group_name = ''Wallet Group 1''\<rparr>],
         currentAddress = Some ''0xAbC1''\<rparr>,
      permissions = [(''https://example.com'', \<lparr>addresses = [''0xAbC1''], chain = None\<rparr>)]\<rparr>"

definition networks_example :: Networks where
  "networks_example =
     \<lparr>getChainId = (\<lambda>c. if c = ''ethereum'' then Inr ''0x1''
                         else if c = ''polygon'' then Inr ''0x89''
                         else Inl (LibraryError ''unknown chain'')),
      getChainById = (\<lambda>i. if i = ''0x1'' then Inr ''ethereum''
                           else if i = ''0x89'' then Inr ''polygon''
                           else Inl (LibraryError ''unknown chain id'')),
      getRpcUrlInternal = (\<lambda>c. Inr (''https://rpc.example/'' @ c))\<rparr>"

definition env_example :: Env where
  "env_example =
     \<lparr>INTERNAL_ORIGIN = ''chrome-extension://wallet'',
      networksStore_load = Inr networks_example,
      hexValue = (\<lambda>p. case p of
                         ChainIdString x \<Rightarrow> Inr x
                       | ChainIdNumber n \<Rightarrow>
                           if n = 1 then Inr ''0x1'' else if n = 137 then Inr ''0x89''
                           else Inl (LibraryError ''invalid hexlify value'')),
      getTransactionChainId = tx_chainId,
      prepareTransaction = (\<lambda>tx. tx),
      hasGasPrice = (\<lambda>tx. False),
      fetchAndAssignGasPrice = (\<lambda>tx. Inr (tx\<lparr>tx_rest := tx_rest tx @ '';gas''\<rparr>)),
      signer_sendTransaction = (\<lambda>wallet url tx. Inr (''signed:'' @ tx_rest tx)),
      removeSignature = (\<lambda>resp. drop 7 resp),
      walletStore_read = (\<lambda>ident key. if key = ''storage-key'' then Inr (Some record_example)
                                     else Inl (LibraryError ''decryption failed'')),
      Model_getRecoveryPhrase =
        (\<lambda>r groupId key.
           case find (\<lambda>g. group_id g = groupId) (groups (walletManager r)) of
             None \<Rightarrow> Inl (Error ''group not found'')
           | Some g \<Rightarrow>
               (case getMnemonic (walletContainer g) of
                  Inr (Some m) \<Rightarrow> Inr m
                | _ \<Rightarrow> Inl (Error ''no mnemonic''))),
      Model_getPrivateKey =
        (\<lambda>r a. case Model_getWalletByAddress r a of
                   None \<Rightarrow> Inl (Error ''wallet not found'')
                 | Some wallet \<Rightarrow> Inr (privateKey wallet))\<rparr>"

definition wallet_example :: Wallet where
  "wallet_example =
     \<lparr>wallet_id = ''user-1'', encryptionKey = Some ''storage-key'',
      seedPhraseEncryptionKey = None, seedPhraseExpiryTimer = None,
      walletRecord = Some record_example, now = 0, effects = []\<rparr>"

definition context_example :: "ChannelContext option" where
  "context_example = Some \<lparr>origin = Some ''https://example.com''\<rparr>"

definition context_internal :: "ChannelContext option" where
  "context_internal = Some \<lparr>origin = Some ''chrome-extension://wallet''\<rparr>"

definition context_stranger :: "ChannelContext option" where
  "context_stranger = Some \<lparr>origin = Some ''https://stranger.example''\<rparr>"

text \<open>Transactions: from another address, for another chain, and without a chain id.\<close>

definition tx_foreign :: IncomingTransaction where
  "tx_foreign = \<lparr>tx_from = Some ''0xdEf2'', tx_chainId = Some ''0x1'', tx_rest = ''pay''\<rparr>"

definition tx_other_chain :: IncomingTransaction where
  "tx_other_chain = \<lparr>tx_from = Some ''0xabc1'', tx_chainId = Some ''0x89'', tx_rest = ''pay''\<rparr>"

definition tx_no_chain :: IncomingTransaction where
  "tx_no_chain = \<lparr>tx_from = Some ''0xabc1'', tx_chainId = None, tx_rest = ''pay''\<rparr>"

text \<open>
  A history: the credentials are established, the key is used after one minute, and a
  second minute passes.
\<close>

definition two_minutes :: "call list" where
  "two_minutes =
     [Wait 60000, Call_getPrivateKey ''0xAbC1'' INTERNAL_SYMBOL_CONTEXT, Wait 60000]"

definition wallet_after_two_minutes :: Wallet where
  "wallet_after_two_minutes =
     run env_example
       (snd (updateCredentials env_example wallet_example ''user-1'' ''storage-key''
               (Some (CryptoKey ''session''))))
       two_minutes"

section \<open>Properties of wallet containers\<close>

lemma findIndex_None: "findIndex P xs = None \<longleftrightarrow> (\<forall>x\<in>set xs. \<not> P x)"
  by (induction xs) (auto split: option.splits)

lemma findIndex_Some_bound: "findIndex P xs = Some i \<Longrightarrow> i < length xs \<and> P (xs ! i)"
  by (induction xs arbitrary: i) (auto split: option.splits if_splits)

lemma findIndex_Some_first:
  "findIndex P xs = Some i \<Longrightarrow> \<forall>j<i. \<not> P (xs ! j)"
proof (induction xs arbitrary: i)
  case Nil
  then show ?case by simp
next
  case (Cons x xs)
  show ?case
  proof (cases "P x")
    case True
    with Cons.prems show ?thesis by simp
  next
    case False
    with Cons.prems obtain k where k: "findIndex P xs = Some k" and i: "i = Suc k"
      by (auto split: option.splits)
    from Cons.IH [OF k] have "\<forall>j<k. \<not> P (xs ! j)" .
    with False i show ?thesis
      by (auto simp: nth_Cons split: nat.splits)
  qed
qed

lemma findIndex_first:
  "i < length xs \<Longrightarrow> P (xs ! i) \<Longrightarrow> \<forall>j<i. \<not> P (xs ! j) \<Longrightarrow> findIndex P xs = Some i"
proof (induction xs arbitrary: i)
  case Nil
  then show ?case by simp
next
  case (Cons x xs)
  show ?case
  proof (cases i)
    case 0
    with Cons.prems show ?thesis by simp
  next
    case (Suc k)
    with Cons.prems have "\<not> P x" by auto
    moreover from Suc Cons.prems have "k < length xs" "P (xs ! k)" by simp_all
    moreover from Suc Cons.prems have "\<forall>j<k. \<not> P (xs ! j)" by auto
    ultimately show ?thesis using Suc Cons.IH [of k] by simp
  qed
qed

lemma map_throwing_all_ok:
  "(\<forall>x\<in>set xs. f x = Inr (g x)) \<Longrightarrow> map_throwing f xs = Inr (map g xs)"
  by (induction xs) auto

lemma map_throwing_map: "map_throwing f (map g xs) = map_throwing (\<lambda>x. f (g x)) xs"
  by (induction xs) (auto split: sum.splits)

lemma map_throwing_length: "map_throwing f xs = Inr ys \<Longrightarrow> length ys = length xs"
  by (induction xs arbitrary: ys) (auto split: sum.splits)

subsection \<open>The private-key container\<close>

text \<open>
  C5. A private-key container is to hold exactly one wallet: its constructor is to fail on
  zero and on more than one descriptor, and \<open>addWallet\<close> is to fail. The constructor's
  guard is \<open>!wallets || wallets.length > 1\<close>, so the empty array passes it: the object
  is built and holds no wallet, although the message of the guard's own exception says
  that exactly one element is expected.
\<close>

theorem PrivateKeyWalletContainer_empty_array:
  "PrivateKeyWalletContainer E (Some []) = Inr \<lparr>seedType = SeedType_privateKey, wallets = []\<rparr>"
  by (simp add: PrivateKeyWalletContainer_def)

text \<open>The rest of the claim holds: two or more descriptors, or none at all, are refused,\<close>

lemma PrivateKeyWalletContainer_many:
  "length xs > 1 \<Longrightarrow>
   PrivateKeyWalletContainer E (Some xs) =
     Inl (Error ''Wallets array is expected to have exactly one element'')"
  by (simp add: PrivateKeyWalletContainer_def)

lemma PrivateKeyWalletContainer_missing:
  "PrivateKeyWalletContainer E None =
     Inl (Error ''Wallets array is expected to have exactly one element'')"
  by (simp add: PrivateKeyWalletContainer_def)

text \<open>a container that was built has as many wallets as descriptors, at most one,\<close>

lemma PrivateKeyWalletContainer_built:
  assumes "PrivateKeyWalletContainer E ws = Inr c"
  shows "seedType c = SeedType_privateKey \<and>
         (\<exists>xs. ws = Some xs \<and> length (wallets c) = length xs \<and> length xs \<le> 1)"
proof (cases ws)
  case None
  with assms show ?thesis by (simp add: PrivateKeyWalletContainer_def)
next
  case (Some xs)
  with assms have le: "length xs \<le> 1"
    by (auto simp: PrivateKeyWalletContainer_def split: if_splits)
  from assms Some le obtain rs where
    rs: "map_throwing
           (\<lambda>pk. if \<not> truthy pk then
                   Inl (Error ''PrivateKey container is expected to have a wallet with a privateKey'')
                 else (case newWallet E (case pk of Some k \<Rightarrow> k | None \<Rightarrow> []) of
                         Inl e \<Rightarrow> Inl e
                       | Inr w \<Rightarrow> restoreBareWallet E (ethersAsPartial w)))
           xs = Inr rs"
    and c: "c = \<lparr>seedType = SeedType_privateKey, wallets = rs\<rparr>"
    by (auto simp: PrivateKeyWalletContainer_def split: if_splits sum.splits)
  from rs have "length rs = length xs" by (rule map_throwing_length)
  with c Some le show ?thesis by simp
qed

text \<open>The container built from the empty array has no first wallet.\<close>

lemma PrivateKeyWalletContainer_empty_first:
  "PrivateKeyWalletContainer E (Some []) = Inr c \<Longrightarrow> getFirstWallet c = None"
  by (auto simp: PrivateKeyWalletContainer_def getFirstWallet_def)

text \<open>No wallet can be added to an object of this class.\<close>

lemma PrivateKeyWalletContainer_addWallet:
  "seedType c = SeedType_privateKey \<Longrightarrow>
   addWallet c w = Inl (Error ''PrivateKeyWalletContainer cannot have multiple wallets'')"
  by (simp add: addWallet_def)

subsection \<open>Serializing and restoring\<close>

lemma restoreBareWallet_plain:
  "address w \<noteq> [] \<Longrightarrow> privateKey w \<noteq> [] \<Longrightarrow>
   restoreBareWallet E (asPartial (walletToObject (Inr w))) = Inr (w\<lparr>name := or_null (name w)\<rparr>)"
  by (simp add: restoreBareWallet_def asPartial_def)

text \<open>
  C8, as amended. Take a container whose wallets all have a non-empty address and a
  non-empty private key (what every wallet produced by the library has). Restoring each
  wallet of its plain-object view succeeds and gives back the same wallets in the same
  order, with the same address, private key and mnemonic; the name is the same too,
  except that an empty name comes back as \<open>null\<close> (\<open>name || null\<close>).
\<close>

theorem toPlainObject_restore_roundtrip:
  assumes "\<forall>w\<in>set (wallets c). address w \<noteq> [] \<and> privateKey w \<noteq> []"
  shows "map_throwing (restoreBareWallet E) (map asPartial (plain_wallets (toPlainObject c))) =
           Inr (map (\<lambda>w. w\<lparr>name := or_null (name w)\<rparr>) (wallets c)) \<and>
         (\<forall>w\<in>set (wallets c). name w \<noteq> Some [] \<longrightarrow> w\<lparr>name := or_null (name w)\<rparr> = w)"
proof
  have "map_throwing (restoreBareWallet E) (map asPartial (plain_wallets (toPlainObject c))) =
        map_throwing (\<lambda>w. restoreBareWallet E (asPartial (walletToObject (Inr w)))) (wallets c)"
    by (simp add: toPlainObject_def map_throwing_map del: walletToObject.simps)
  also have "\<dots> = Inr (map (\<lambda>w. w\<lparr>name := or_null (name w)\<rparr>) (wallets c))"
    by (rule map_throwing_all_ok) (use assms restoreBareWallet_plain in blast)
  finally show "map_throwing (restoreBareWallet E)
                  (map asPartial (plain_wallets (toPlainObject c))) =
                Inr (map (\<lambda>w. w\<lparr>name := or_null (name w)\<rparr>) (wallets c))" .
next
  show "\<forall>w\<in>set (wallets c). name w \<noteq> Some [] \<longrightarrow> w\<lparr>name := or_null (name w)\<rparr> = w"
  proof (intro ballI impI)
    fix w :: BareWallet
    assume "name w \<noteq> Some []"
    then have "or_null (name w) = name w"
      by (cases "name w") (simp_all add: or_null_def)
    then show "w\<lparr>name := or_null (name w)\<rparr> = w" by simp
  qed
qed

theorem toPlainObject_restore_roundtrip_witness:
  "map address (wallets container_two) = [''0xAbC1'', ''0xdEf2''] \<and>
   map privateKey (wallets container_two) = [''0x01'', ''0x02''] \<and>
   map name (wallets container_two) = [Some ''Main'', None] \<and>
   map_throwing (restoreBareWallet ethers_example)
     (map asPartial (plain_wallets (toPlainObject container_two))) =
   Inr (wallets container_two)"
  using toPlainObject_restore_roundtrip [of container_two ethers_example]
  by (simp add: container_two_def wallet_main_def wallet_second_def or_null_def)

text \<open>
  C8, as stated, fails for a wallet whose name is the empty string: the name is present
  in the container and in its plain-object view, and absent after restoring.
\<close>

theorem toPlainObject_restore_empty_name:
  "map name (wallets container_empty_name) = [Some []] \<and>
   map name (plain_wallets (toPlainObject container_empty_name)) = [Some []] \<and>
   map_throwing (restoreBareWallet ethers_example)
     (map asPartial (plain_wallets (toPlainObject container_empty_name))) =
   Inr [wallet_main\<lparr>name := None\<rparr>]"
  by (simp add: container_empty_name_def wallet_main_def toPlainObject_def asPartial_def
      restoreBareWallet_def or_null_def)

subsection \<open>Lookup and removal by address\<close>

text \<open>
  C9. \<open>getWalletByAddress\<close> and \<open>removeWallet\<close> compare addresses after
  \<open>toLowerCase\<close>. Two spellings of one address give the same result. When some wallet
  of the container has the queried address up to case, there is a first position \<open>i\<close>
  with such a wallet: \<open>getWalletByAddress\<close> returns the wallet at \<open>i\<close>, and
  \<open>removeWallet\<close> returns the container without the wallet at \<open>i\<close>, every other
  wallet kept in its order. For an address that no wallet of the container has up to case
  \<open>removeWallet\<close> returns the container as it was (it has no failing branch at all) and
  \<open>getWalletByAddress\<close> returns \<open>null\<close>.
\<close>

theorem container_address_case_insensitive:
  "(toLowerCase a = toLowerCase b \<longrightarrow>
      getWalletByAddress c a = getWalletByAddress c b \<and> removeWallet c a = removeWallet c b) \<and>
   ((\<exists>w\<in>set (wallets c). toLowerCase (address w) = toLowerCase a) \<longrightarrow>
      (\<exists>i<length (wallets c).
          toLowerCase (address (wallets c ! i)) = toLowerCase a \<and>
          (\<forall>j<i. toLowerCase (address (wallets c ! j)) \<noteq> toLowerCase a) \<and>
          getWalletByAddress c a = Some (wallets c ! i) \<and>
          removeWallet c a = c\<lparr>wallets := take i (wallets c) @ drop (Suc i) (wallets c)\<rparr>)) \<and>
   (i < length (wallets c) \<and> toLowerCase (address (wallets c ! i)) = toLowerCase a \<and>
    (\<forall>j<i. toLowerCase (address (wallets c ! j)) \<noteq> toLowerCase a) \<longrightarrow>
      getWalletByAddress c a = Some (wallets c ! i) \<and>
      removeWallet c a = c\<lparr>wallets := take i (wallets c) @ drop (Suc i) (wallets c)\<rparr>) \<and>
   ((\<forall>w\<in>set (wallets c). toLowerCase (address w) \<noteq> toLowerCase a) \<longrightarrow>
      removeWallet c a = c \<and> getWalletByAddress c a = None)"
proof -
  let ?P = "\<lambda>w. toLowerCase (address w) = toLowerCase a"
  have pinned:
    "getWalletByAddress c a = Some (wallets c ! k) \<and>
     removeWallet c a = c\<lparr>wallets := take k (wallets c) @ drop (Suc k) (wallets c)\<rparr>"
    if k: "k < length (wallets c)" "?P (wallets c ! k)" "\<forall>j<k. \<not> ?P (wallets c ! j)" for k
  proof
    from k have "find ?P (wallets c) = Some (wallets c ! k)"
      unfolding find_Some_iff by blast
    then show "getWalletByAddress c a = Some (wallets c ! k)"
      by (simp add: getWalletByAddress_def)
    from k have "findIndex ?P (wallets c) = Some k"
      by (intro findIndex_first)
    then show "removeWallet c a = c\<lparr>wallets := take k (wallets c) @ drop (Suc k) (wallets c)\<rparr>"
      by (simp add: removeWallet_def splice1_def)
  qed
  show ?thesis
  proof (intro conjI impI)
    assume "toLowerCase a = toLowerCase b"
    then show "getWalletByAddress c a = getWalletByAddress c b"
      and "removeWallet c a = removeWallet c b"
      by (simp_all add: getWalletByAddress_def removeWallet_def)
  next
    assume "\<exists>w\<in>set (wallets c). toLowerCase (address w) = toLowerCase a"
    then obtain k where found: "findIndex ?P (wallets c) = Some k"
      by (cases "findIndex ?P (wallets c)") (auto simp: findIndex_None)
    then have k: "k < length (wallets c)" "?P (wallets c ! k)" "\<forall>j<k. \<not> ?P (wallets c ! j)"
      using findIndex_Some_bound [OF found] findIndex_Some_first [OF found] by simp_all
    with pinned [OF k]
    show "\<exists>i<length (wallets c).
            toLowerCase (address (wallets c ! i)) = toLowerCase a \<and>
            (\<forall>j<i. toLowerCase (address (wallets c ! j)) \<noteq> toLowerCase a) \<and>
            getWalletByAddress c a = Some (wallets c ! i) \<and>
            removeWallet c a = c\<lparr>wallets := take i (wallets c) @ drop (Suc i) (wallets c)\<rparr>"
      by blast
  next
    assume "i < length (wallets c) \<and> toLowerCase (address (wallets c ! i)) = toLowerCase a \<and>
            (\<forall>j<i. toLowerCase (address (wallets c ! j)) \<noteq> toLowerCase a)"
    then have "getWalletByAddress c a = Some (wallets c ! i) \<and>
               removeWallet c a = c\<lparr>wallets := take i (wallets c) @ drop (Suc i) (wallets c)\<rparr>"
      by (intro pinned) simp_all
    then show "getWalletByAddress c a = Some (wallets c ! i)"
      and "removeWallet c a = c\<lparr>wallets := take i (wallets c) @ drop (Suc i) (wallets c)\<rparr>"
      by simp_all
  next
    assume no: "\<forall>w\<in>set (wallets c). toLowerCase (address w) \<noteq> toLowerCase a"
    then have "findIndex ?P (wallets c) = None"
      by (simp add: findIndex_None)
    then show "removeWallet c a = c" by (simp add: removeWallet_def)
    from no show "getWalletByAddress c a = None"
      by (simp add: getWalletByAddress_def find_None_iff)
  qed
qed

theorem container_address_case_insensitive_witness:
  "toLowerCase ''0xABC1'' = toLowerCase ''0xabc1'' \<and>
   getWalletByAddress container_two ''0xABC1'' = Some wallet_main \<and>
   getWalletByAddress container_two ''0xabc1'' = Some wallet_main \<and>
   wallets (removeWallet container_two ''0xABC1'') = [wallet_second] \<and>
   wallets (removeWallet container_two ''0xabc1'') = [wallet_second] \<and>
   map (\<lambda>w. toLowerCase (address w)) (wallets container_three) =
     [''0xabc1'', ''0xdef2'', ''0x7a93''] \<and>
   toLowerCase ''0xDEF2'' = ''0xdef2'' \<and>
   getWalletByAddress container_three ''0xDEF2'' = Some wallet_second \<and>
   removeWallet container_three ''0xDEF2'' =
     \<lparr>seedType = SeedType_mnemonic, wallets = [wallet_main, wallet_third]\<rparr> \<and>
   map (\<lambda>w. toLowerCase (address w)) (wallets container_two) = [''0xabc1'', ''0xdef2''] \<and>
   toLowerCase ''0xdead'' = ''0xdead'' \<and>
   removeWallet container_two ''0xdead'' = container_two \<and>
   getWalletByAddress container_two ''0xdead'' = None"
proof -
  have same: "toLowerCase ''0xABC1'' = toLowerCase ''0xabc1''"
    by code_simp
  have absent:
    "\<forall>w\<in>set (wallets container_two). toLowerCase (address w) \<noteq> toLowerCase ''0xdead''"
    by code_simp
  have lower: "getWalletByAddress container_two ''0xabc1'' = Some wallet_main"
    "wallets (removeWallet container_two ''0xabc1'') = [wallet_second]"
    by code_simp+
  have three: "wallets container_three = [wallet_main, wallet_second, wallet_third]"
    "seedType container_three = SeedType_mnemonic"
    by (simp_all add: container_three_def)
  have lowered:
    "map (\<lambda>w. toLowerCase (address w)) (wallets container_three) =
       [''0xabc1'', ''0xdef2'', ''0x7a93'']"
    "toLowerCase ''0xDEF2'' = ''0xdef2''"
    by code_simp+
  then have spelled:
    "toLowerCase (address wallet_main) = ''0xabc1''"
    "toLowerCase (address wallet_second) = ''0xdef2''"
    by (simp_all add: three)
  have middle:
    "1 < length (wallets container_three) \<and>
     toLowerCase (address (wallets container_three ! 1)) = toLowerCase ''0xDEF2'' \<and>
     (\<forall>j<1. toLowerCase (address (wallets container_three ! j)) \<noteq> toLowerCase ''0xDEF2'')"
    by (simp add: three spelled lowered)
  from same container_address_case_insensitive [of "''0xABC1''" "''0xabc1''" container_two]
  have "getWalletByAddress container_two ''0xABC1'' = getWalletByAddress container_two ''0xabc1''"
    and "removeWallet container_two ''0xABC1'' = removeWallet container_two ''0xabc1''"
    by blast+
  moreover
  from middle
    container_address_case_insensitive [of "''0xDEF2''" "''0xDEF2''" container_three 1]
  have "getWalletByAddress container_three ''0xDEF2'' = Some (wallets container_three ! 1)"
    and "removeWallet container_three ''0xDEF2'' =
           container_three
             \<lparr>wallets := take 1 (wallets container_three) @ drop (Suc 1) (wallets container_three)\<rparr>"
    by blast+
  then have "getWalletByAddress container_three ''0xDEF2'' = Some wallet_second"
    and "removeWallet container_three ''0xDEF2'' =
           \<lparr>seedType = SeedType_mnemonic, wallets = [wallet_main, wallet_third]\<rparr>"
    by (simp_all add: container_three_def)
  moreover
  from absent container_address_case_insensitive [of "''0xdead''" "''0xdead''" container_two]
  have "removeWallet container_two ''0xdead'' = container_two"
    and "getWalletByAddress container_two ''0xdead'' = None"
    by blast+
  moreover
  have "map (\<lambda>w. toLowerCase (address w)) (wallets container_two) = [''0xabc1'', ''0xdef2'']"
    and "toLowerCase ''0xdead'' = ''0xdead''"
    by code_simp+
  ultimately show ?thesis
    using same lower lowered by simp
qed

section \<open>Properties of the controller\<close>

lemma perform_simps [simp]:
  "effects (perform es w) = effects w @ es"
  "walletRecord (perform es w) = walletRecord w"
  "encryptionKey (perform es w) = encryptionKey w"
  "wallet_id (perform es w) = wallet_id w"
  "seedPhraseEncryptionKey (perform es w) = seedPhraseEncryptionKey w"
  "seedPhraseExpiryTimer (perform es w) = seedPhraseExpiryTimer w"
  "now (perform es w) = now w"
  by (simp_all add: perform_def)

lemma saved_simps [simp]:
  "saved (perform es w) r = saved w r"
  "saved (w\<lparr>walletRecord := x\<rparr>) r = saved w r"
  by (simp_all add: saved_def split: option.splits)

lemma updateWalletStore_saved: "snd (updateWalletStore w r) = perform (saved w r) w"
  by (auto simp: updateWalletStore_def saved_def perform_def split: option.splits)

lemma map_of_assign: "map_of (assign k v kvs) = (map_of kvs)(k \<mapsto> v)"
  by (induction kvs) (auto simp: fun_eq_iff)

lemma readCurrentAddress_nonempty: "readCurrentAddress w = Some a \<Longrightarrow> a \<noteq> []"
  by (auto simp: readCurrentAddress_def or_null_def split: option.splits if_splits)

subsection \<open>Authorizing an origin\<close>

text \<open>
  C1. \<open>INTERNAL_ORIGIN\<close> is the sentinel that \<open>allowedOrigin\<close> tests; it is a
  non-empty string (an empty origin is refused before the test). For a context with that
  origin \<open>allowedOrigin\<close> returns true for every address and every state of the
  controller, with or without a record. For a context with any other origin it returns
  true exactly when the record has a permission entry for that origin whose addresses
  include the address.
\<close>

theorem allowedOrigin_sentinel_and_permission:
  "(origin c = Some (INTERNAL_ORIGIN env) \<and> INTERNAL_ORIGIN env \<noteq> [] \<longrightarrow>
      allowedOrigin env w (Some c) addr = Inr True) \<and>
   (origin c = Some orig \<and> orig \<noteq> INTERNAL_ORIGIN env \<longrightarrow>
      (allowedOrigin env w (Some c) addr = Inr True \<longleftrightarrow>
         orig \<noteq> [] \<and>
         (\<exists>r p. walletRecord w = Some r \<and> map_of (permissions r) orig = Some p \<and>
                addr \<in> set (addresses p))))"
  by (auto simp: allowedOrigin_def split: option.splits)

theorem allowedOrigin_sentinel_and_permission_witness:
  "allowedOrigin env_example wallet_example context_internal ''0xnever-granted'' = Inr True \<and>
   allowedOrigin env_example (wallet_example\<lparr>walletRecord := None\<rparr>) context_internal
     ''0xnever-granted'' = Inr True \<and>
   allowedOrigin env_example wallet_example context_example ''0xAbC1'' = Inr True \<and>
   allowedOrigin env_example wallet_example context_example ''0xdEf2'' \<noteq> Inr True \<and>
   allowedOrigin env_example wallet_example context_stranger ''0xAbC1'' \<noteq> Inr True"
proof -
  have internal:
    "origin \<lparr>origin = Some ''chrome-extension://wallet''\<rparr> = Some (INTERNAL_ORIGIN env_example) \<and>
     INTERNAL_ORIGIN env_example \<noteq> []"
    by (simp add: env_example_def)
  have other:
    "origin \<lparr>origin = Some ''https://example.com''\<rparr> = Some ''https://example.com'' \<and>
     ''https://example.com'' \<noteq> INTERNAL_ORIGIN env_example"
    "origin \<lparr>origin = Some ''https://stranger.example''\<rparr> = Some ''https://stranger.example'' \<and>
     ''https://stranger.example'' \<noteq> INTERNAL_ORIGIN env_example"
    by (simp_all add: env_example_def)
  have listed:
    "walletRecord wallet_example = Some record_example"
    "map_of (permissions record_example) ''https://example.com'' =
       Some \<lparr>addresses = [''0xAbC1''], chain = None\<rparr>"
    "map_of (permissions record_example) ''https://stranger.example'' = None"
    by (simp_all add: wallet_example_def record_example_def)
  from internal
    allowedOrigin_sentinel_and_permission
      [where c = "\<lparr>origin = Some ''chrome-extension://wallet''\<rparr>" and env = env_example
         and w = wallet_example and addr = "''0xnever-granted''"]
    allowedOrigin_sentinel_and_permission
      [where c = "\<lparr>origin = Some ''chrome-extension://wallet''\<rparr>" and env = env_example
         and w = "wallet_example\<lparr>walletRecord := None\<rparr>" and addr = "''0xnever-granted''"]
  have "allowedOrigin env_example wallet_example context_internal ''0xnever-granted'' = Inr True"
    and "allowedOrigin env_example (wallet_example\<lparr>walletRecord := None\<rparr>) context_internal
           ''0xnever-granted'' = Inr True"
    unfolding context_internal_def by blast+
  moreover
  from other(1) listed
    allowedOrigin_sentinel_and_permission
      [where c = "\<lparr>origin = Some ''https://example.com''\<rparr>" and orig = "''https://example.com''"
         and env = env_example and w = wallet_example and addr = "''0xAbC1''"]
    allowedOrigin_sentinel_and_permission
      [where c = "\<lparr>origin = Some ''https://example.com''\<rparr>" and orig = "''https://example.com''"
         and env = env_example and w = wallet_example and addr = "''0xdEf2''"]
  have "allowedOrigin env_example wallet_example context_example ''0xAbC1'' = Inr True"
    and "allowedOrigin env_example wallet_example context_example ''0xdEf2'' \<noteq> Inr True"
    unfolding context_example_def by auto
  moreover
  from other(2) listed
    allowedOrigin_sentinel_and_permission
      [where c = "\<lparr>origin = Some ''https://stranger.example''\<rparr>"
         and orig = "''https://stranger.example''" and env = env_example and w = wallet_example
         and addr = "''0xAbC1''"]
  have "allowedOrigin env_example wallet_example context_stranger ''0xAbC1'' \<noteq> Inr True"
    unfolding context_stranger_def by auto
  ultimately show ?thesis by blast
qed

subsection \<open>The accounts shown to an origin\<close>

text \<open>
  C6. Without a current address \<open>eth_accounts\<close> returns the empty list, whatever the
  context. With a current address and a calling origin (a non-empty string) it returns the
  list of that one address when the origin is \<open>INTERNAL_ORIGIN\<close> or when the permission
  entry of the origin lists the current address, and the empty list otherwise.
\<close>

theorem eth_accounts_by_permission:
  "(readCurrentAddress w = None \<longrightarrow> eth_accounts env w context = Inr []) \<and>
   (readCurrentAddress w = Some current \<and> origin c = Some orig \<and> orig \<noteq> [] \<longrightarrow>
      eth_accounts env w (Some c) =
        Inr (if orig = INTERNAL_ORIGIN env \<or>
                (\<exists>r p. walletRecord w = Some r \<and> map_of (permissions r) orig = Some p \<and>
                       current \<in> set (addresses p))
             then [current] else []))"
  by (auto simp: eth_accounts_def allowedOrigin_def split: option.splits)

theorem eth_accounts_by_permission_witness:
  "eth_accounts env_example (wallet_example\<lparr>walletRecord := None\<rparr>) context_example = Inr [] \<and>
   eth_accounts env_example wallet_example context_example = Inr [''0xAbC1''] \<and>
   eth_accounts env_example wallet_example context_internal = Inr [''0xAbC1''] \<and>
   eth_accounts env_example wallet_example context_stranger = Inr []"
proof -
  have none: "readCurrentAddress (wallet_example\<lparr>walletRecord := None\<rparr>) = None"
    by (simp add: readCurrentAddress_def)
  have cur: "readCurrentAddress wallet_example = Some ''0xAbC1''"
    by (simp add: readCurrentAddress_def wallet_example_def record_example_def or_null_def)
  have listed:
    "walletRecord wallet_example = Some record_example"
    "map_of (permissions record_example) ''https://example.com'' =
       Some \<lparr>addresses = [''0xAbC1''], chain = None\<rparr>"
    "map_of (permissions record_example) ''https://stranger.example'' = None"
    "INTERNAL_ORIGIN env_example = ''chrome-extension://wallet''"
    by (simp_all add: wallet_example_def record_example_def env_example_def)
  from none eth_accounts_by_permission
      [of "wallet_example\<lparr>walletRecord := None\<rparr>" env_example context_example]
  have "eth_accounts env_example (wallet_example\<lparr>walletRecord := None\<rparr>) context_example = Inr []"
    by blast
  moreover
  from cur listed eth_accounts_by_permission
      [where w = wallet_example and env = env_example and current = "''0xAbC1''"
         and c = "\<lparr>origin = Some ''https://example.com''\<rparr>" and orig = "''https://example.com''"]
  have "eth_accounts env_example wallet_example context_example = Inr [''0xAbC1'']"
    unfolding context_example_def by simp
  moreover
  from cur listed eth_accounts_by_permission
      [where w = wallet_example and env = env_example and current = "''0xAbC1''"
         and c = "\<lparr>origin = Some ''chrome-extension://wallet''\<rparr>" and orig = "''chrome-extension://wallet''"]
  have "eth_accounts env_example wallet_example context_internal = Inr [''0xAbC1'']"
    unfolding context_internal_def by simp
  moreover
  from cur listed eth_accounts_by_permission
      [where w = wallet_example and env = env_example and current = "''0xAbC1''"
         and c = "\<lparr>origin = Some ''https://stranger.example''\<rparr>" and orig = "''https://stranger.example''"]
  have "eth_accounts env_example wallet_example context_stranger = Inr []"
    unfolding context_stranger_def by simp
  ultimately show ?thesis by blast
qed

subsection \<open>Sending a transaction: the sender\<close>

text \<open>
  C3. When the \<open>from\<close> field of the transaction is missing (or empty), or when it
  differs, after \<open>normalizeAddress\<close>, from the current address (or there is no current
  address to compare it with), \<open>sendTransaction\<close> throws, and the controller is then in
  the state in which it was called: in particular its list of effects is the same, so the
  network registry was not loaded, no gas price was fetched and nothing was signed or sent.
\<close>

theorem sendTransaction_rejects_foreign_sender:
  assumes "tx_from tx = None \<or> tx_from tx = Some [] \<or>
           (\<exists>sender. tx_from tx = Some sender \<and>
              (\<forall>current. readCurrentAddress w = Some current \<longrightarrow>
                 normalizeAddress sender \<noteq> normalizeAddress current))"
  shows "\<exists>e. sendTransaction env w tx context transactionOrigin = (Inl e, w)"
  using assms
  by (auto simp: sendTransaction_def ensureCurrentAddress_def split: option.splits)

theorem sendTransaction_rejects_foreign_sender_witness:
  "tx_from tx_foreign = Some ''0xdEf2'' \<and>
   readCurrentAddress wallet_example = Some ''0xAbC1'' \<and>
   normalizeAddress ''0xdEf2'' \<noteq> normalizeAddress ''0xAbC1'' \<and>
   (\<exists>e. sendTransaction env_example wallet_example tx_foreign context_internal
          ''https://example.com'' = (Inl e, wallet_example)) \<and>
   (\<exists>e. sendTransaction env_example wallet_example (tx_foreign\<lparr>tx_from := None\<rparr>)
          context_internal ''https://example.com'' = (Inl e, wallet_example))"
proof -
  have sender: "tx_from tx_foreign = Some ''0xdEf2''"
    by (simp add: tx_foreign_def)
  have cur: "readCurrentAddress wallet_example = Some ''0xAbC1''"
    by (simp add: readCurrentAddress_def wallet_example_def record_example_def or_null_def)
  have differ: "normalizeAddress ''0xdEf2'' \<noteq> normalizeAddress ''0xAbC1''"
    by code_simp
  from sender cur differ
  have "\<exists>sender. tx_from tx_foreign = Some sender \<and>
          (\<forall>current. readCurrentAddress wallet_example = Some current \<longrightarrow>
             normalizeAddress sender \<noteq> normalizeAddress current)"
    by simp
  then have "\<exists>e. sendTransaction env_example wallet_example tx_foreign context_internal
                 ''https://example.com'' = (Inl e, wallet_example)"
    by (intro sendTransaction_rejects_foreign_sender) blast
  moreover
  have "tx_from (tx_foreign\<lparr>tx_from := None\<rparr>) = None" by simp
  then have "\<exists>e. sendTransaction env_example wallet_example (tx_foreign\<lparr>tx_from := None\<rparr>)
                 context_internal ''https://example.com'' = (Inl e, wallet_example)"
    by (intro sendTransaction_rejects_foreign_sender) blast
  ultimately show ?thesis using sender cur differ by blast
qed

subsection \<open>Sending a transaction: the chain\<close>

lemma getChainIdForOrigin_effects:
  "getChainIdForOrigin env w orig = (res, w1) \<Longrightarrow>
   w1 = w \<or> w1 = perform [NetworksStore_load] w"
  by (auto simp: getChainIdForOrigin_def Let_def split: option.splits sum.splits)

text \<open>
  C4. The chain id of the transaction is what \<open>getTransactionChainId\<close> makes of it, and
  the chain of the origin is what \<open>getChainIdForOrigin\<close> answers. First, for every
  transaction and every caller: when the transaction has a chain id and it is not the id
  that the origin resolves to, \<open>sendTransaction\<close> throws, having at most loaded the
  network registry. Second, for a call that has passed the checks of the caller and of
  the sender: in that case the exception is the one of the chain check, and when the
  transaction has no chain id the call goes on as the rest of \<open>sendTransaction\<close> does
  on the transaction with its \<open>chainId\<close> set to the id of the origin's chain, after
  one warning on the console.
\<close>

theorem sendTransaction_chainId_check:
  "(getTransactionChainId env tx = Some target \<and> target \<noteq> [] \<and>
    fst (getChainIdForOrigin env w transactionOrigin) \<noteq> Inr target \<longrightarrow>
      (\<exists>e w'. sendTransaction env w tx ctx transactionOrigin = (Inl e, w') \<and>
              (w' = w \<or> w' = perform [NetworksStore_load] w))) \<and>
   (verifyInternalOrigin env (widen ctx) = None \<and>
    tx_from tx = Some sender \<and> readCurrentAddress w = Some current \<and>
    normalizeAddress sender = normalizeAddress current \<and>
    getChainIdForOrigin env w transactionOrigin = (Inr chainId, w_after) \<longrightarrow>
      (getTransactionChainId env tx = Some target \<and> target \<noteq> [] \<and> target \<noteq> chainId \<longrightarrow>
         sendTransaction env w tx ctx transactionOrigin =
           (Inl (Error ''chainId in transaction object is different from current chainId''), w_after)) \<and>
      (getTransactionChainId env tx = None \<longrightarrow>
         sendTransaction env w tx ctx transactionOrigin =
           sendTransaction_submit env
             (perform [Console_warn ''chainId field is missing from transaction object''] w_after)
             chainId (tx\<lparr>tx_chainId := Some chainId\<rparr>)))"
proof (intro conjI impI)
  assume a: "getTransactionChainId env tx = Some target \<and> target \<noteq> [] \<and>
    fst (getChainIdForOrigin env w transactionOrigin) \<noteq> Inr target"
  obtain res w1 where g: "getChainIdForOrigin env w transactionOrigin = (res, w1)"
    by (cases "getChainIdForOrigin env w transactionOrigin")
  from g have "w1 = w \<or> w1 = perform [NetworksStore_load] w"
    by (rule getChainIdForOrigin_effects)
  with a g show "\<exists>e w'. sendTransaction env w tx ctx transactionOrigin = (Inl e, w') \<and>
              (w' = w \<or> w' = perform [NetworksStore_load] w)"
    by (auto simp: sendTransaction_def split: option.splits sum.splits)
next
  assume p: "verifyInternalOrigin env (widen ctx) = None \<and>
    tx_from tx = Some sender \<and> readCurrentAddress w = Some current \<and>
    normalizeAddress sender = normalizeAddress current \<and>
    getChainIdForOrigin env w transactionOrigin = (Inr chainId, w_after)"
    and t: "getTransactionChainId env tx = Some target \<and> target \<noteq> [] \<and> target \<noteq> chainId"
  from p have "current \<noteq> []" by (auto dest: readCurrentAddress_nonempty)
  with p have "sender \<noteq> []"
    by (auto simp: normalizeAddress_def toLowerCase_def)
  with p t show "sendTransaction env w tx ctx transactionOrigin =
           (Inl (Error ''chainId in transaction object is different from current chainId''), w_after)"
    by (auto simp: sendTransaction_def ensureCurrentAddress_def)
next
  assume p: "verifyInternalOrigin env (widen ctx) = None \<and>
    tx_from tx = Some sender \<and> readCurrentAddress w = Some current \<and>
    normalizeAddress sender = normalizeAddress current \<and>
    getChainIdForOrigin env w transactionOrigin = (Inr chainId, w_after)"
    and t: "getTransactionChainId env tx = None"
  from p have "current \<noteq> []" by (auto dest: readCurrentAddress_nonempty)
  with p have "sender \<noteq> []"
    by (auto simp: normalizeAddress_def toLowerCase_def)
  with p t show "sendTransaction env w tx ctx transactionOrigin =
           sendTransaction_submit env
             (perform [Console_warn ''chainId field is missing from transaction object''] w_after)
             chainId (tx\<lparr>tx_chainId := Some chainId\<rparr>)"
    by (simp add: sendTransaction_def ensureCurrentAddress_def)
qed

theorem sendTransaction_chainId_check_witness:
  "getChainIdForOrigin env_example wallet_example ''https://example.com'' =
     (Inr ''0x1'', perform [NetworksStore_load] wallet_example) \<and>
   getTransactionChainId env_example tx_other_chain = Some ''0x89'' \<and>
   sendTransaction env_example wallet_example tx_other_chain context_internal
     ''https://example.com'' =
     (Inl (Error ''chainId in transaction object is different from current chainId''),
      perform [NetworksStore_load] wallet_example) \<and>
   getTransactionChainId env_example tx_no_chain = None \<and>
   fst (sendTransaction env_example wallet_example tx_no_chain context_internal
          ''https://example.com'') = Inr ''pay;gas'' \<and>
   effects (snd (sendTransaction env_example wallet_example tx_no_chain context_internal
                   ''https://example.com'')) =
     [NetworksStore_load,
      Console_warn ''chainId field is missing from transaction object'',
      Call_fetchAndAssignGasPrice (tx_no_chain\<lparr>tx_chainId := Some ''0x1''\<rparr>),
      NetworksStore_load,
      Call_signer_sendTransaction ''https://rpc.example/ethereum''
        (tx_no_chain\<lparr>tx_chainId := Some ''0x1'', tx_rest := ''pay;gas''\<rparr>),
      Emit_pendingTransactionCreated ''pay;gas'']"
proof -
  have pre:
    "verifyInternalOrigin env_example (widen context_internal) = None"
    "tx_from tx_other_chain = Some ''0xabc1''"
    "tx_from tx_no_chain = Some ''0xabc1''"
    "readCurrentAddress wallet_example = Some ''0xAbC1''"
    "normalizeAddress ''0xabc1'' = normalizeAddress ''0xAbC1''"
    "getChainIdForOrigin env_example wallet_example ''https://example.com'' =
       (Inr ''0x1'', perform [NetworksStore_load] wallet_example)"
    by code_simp+
  have ids:
    "getTransactionChainId env_example tx_other_chain = Some ''0x89''"
    "getTransactionChainId env_example tx_no_chain = None"
    by code_simp+
  from pre ids(1)
    sendTransaction_chainId_check
      [where env = env_example and tx = tx_other_chain and target = "''0x89''"
         and w = wallet_example and transactionOrigin = "''https://example.com''"
         and sender = "''0xabc1''" and current = "''0xAbC1''" and chainId = "''0x1''"
         and w_after = "perform [NetworksStore_load] wallet_example" and ctx = context_internal]
  have other: "sendTransaction env_example wallet_example tx_other_chain context_internal
                 ''https://example.com'' =
               (Inl (Error ''chainId in transaction object is different from current chainId''),
                perform [NetworksStore_load] wallet_example)"
    by simp
  from pre ids(2)
    sendTransaction_chainId_check
      [where env = env_example and tx = tx_no_chain
         and w = wallet_example and transactionOrigin = "''https://example.com''"
         and sender = "''0xabc1''" and current = "''0xAbC1''" and chainId = "''0x1''"
         and w_after = "perform [NetworksStore_load] wallet_example" and ctx = context_internal]
  have missing: "sendTransaction env_example wallet_example tx_no_chain context_internal
                   ''https://example.com'' =
                 sendTransaction_submit env_example
                   (perform [Console_warn ''chainId field is missing from transaction object'']
                      (perform [NetworksStore_load] wallet_example))
                   ''0x1'' (tx_no_chain\<lparr>tx_chainId := Some ''0x1''\<rparr>)"
    by simp
  have submit:
    "fst (sendTransaction_submit env_example
            (perform [Console_warn ''chainId field is missing from transaction object'']
               (perform [NetworksStore_load] wallet_example))
            ''0x1'' (tx_no_chain\<lparr>tx_chainId := Some ''0x1''\<rparr>)) = Inr ''pay;gas''"
    "effects (snd (sendTransaction_submit env_example
            (perform [Console_warn ''chainId field is missing from transaction object'']
               (perform [NetworksStore_load] wallet_example))
            ''0x1'' (tx_no_chain\<lparr>tx_chainId := Some ''0x1''\<rparr>))) =
     [NetworksStore_load,
      Console_warn ''chainId field is missing from transaction object'',
      Call_fetchAndAssignGasPrice (tx_no_chain\<lparr>tx_chainId := Some ''0x1''\<rparr>),
      NetworksStore_load,
      Call_signer_sendTransaction ''https://rpc.example/ethereum''
        (tx_no_chain\<lparr>tx_chainId := Some ''0x1'', tx_rest := ''pay;gas''\<rparr>),
      Emit_pendingTransactionCreated ''pay;gas'']"
    by code_simp+
  from pre(6) ids other missing submit show ?thesis by simp
qed

subsection \<open>Switching the chain of an origin\<close>

lemma getChainForOrigin_setChainForOrigin:
  "Model_getChainForOrigin (Model_setChainForOrigin r c orig) orig' =
     (if orig' = orig then c else Model_getChainForOrigin r orig')"
  by (auto simp: Model_getChainForOrigin_def Model_setChainForOrigin_def map_of_assign
      split: option.splits)

text \<open>
  C7. Take a call of \<open>wallet_switchEthereumChain\<close> by an origin that is allowed for the
  current address, with a parameter that \<open>hexValue\<close> turns into the id \<open>chainId\<close>, while
  the chain of the origin resolves to the id \<open>resolved\<close>. If the two ids are equal the
  call returns \<open>null\<close>, and all it has done is to load the network registry: the record
  is the same and no event was emitted. If they differ, and the registry knows the chain
  \<open>c\<close> of \<open>chainId\<close>, the call returns \<open>null\<close> too, the record is the one that
  \<open>setChainForOrigin\<close> makes, in which the chain of this origin is \<open>c\<close>, and the
  effects are two loads of the registry, the write of the record and the event
  \<open>chainChanged\<close>: no confirmation window is opened.
\<close>

theorem wallet_switchEthereumChain_noop_or_immediate:
  assumes cur: "readCurrentAddress w = Some current"
    and allowed: "allowedOrigin env w ctx current = Inr True"
    and hex: "hexValue env chainIdParameter = Inr chainId"
    and rec: "walletRecord w = Some r"
    and resolved: "fst (getChainIdForOrigin env w (context_origin ctx)) = Inr resolved"
  shows "(chainId = resolved \<longrightarrow>
            wallet_switchEthereumChain env w chainIdParameter ctx =
              (Inr (), perform [NetworksStore_load] w)) \<and>
         (chainId \<noteq> resolved \<and> networksStore_load env = Inr networks \<and>
          getChainById networks chainId = Inr c \<longrightarrow>
            (\<exists>w'. wallet_switchEthereumChain env w chainIdParameter ctx = (Inr (), w') \<and>
                  walletRecord w' = Some (Model_setChainForOrigin r c (context_origin ctx)) \<and>
                  Model_getChainForOrigin (Model_setChainForOrigin r c (context_origin ctx))
                    (context_origin ctx) = c \<and>
                  effects w' =
                    effects w @ [NetworksStore_load, NetworksStore_load] @
                    saved w (Model_setChainForOrigin r c (context_origin ctx)) @
                    [Emit_chainChanged c (context_origin ctx)]))"
proof -
  from rec resolved
  have g: "getChainIdForOrigin env w (context_origin ctx) =
             (Inr resolved, perform [NetworksStore_load] w)"
    by (auto simp: getChainIdForOrigin_def Let_def split: sum.splits)
  show ?thesis
  proof (intro conjI impI)
    assume "chainId = resolved"
    with cur allowed hex g
    show "wallet_switchEthereumChain env w chainIdParameter ctx =
            (Inr (), perform [NetworksStore_load] w)"
      by (simp add: wallet_switchEthereumChain_def)
  next
    assume d: "chainId \<noteq> resolved \<and> networksStore_load env = Inr networks \<and>
               getChainById networks chainId = Inr c"
    let ?r' = "Model_setChainForOrigin r c (context_origin ctx)"
    let ?w' = "perform [Emit_chainChanged c (context_origin ctx)]
                 (snd (updateWalletStore
                    ((perform [NetworksStore_load] (perform [NetworksStore_load] w))
                       \<lparr>walletRecord := Some ?r'\<rparr>) ?r'))"
    from cur allowed hex g d rec
    have "wallet_switchEthereumChain env w chainIdParameter ctx = (Inr (), ?w')"
      by (simp add: wallet_switchEthereumChain_def setChainForOrigin_def Let_def)
    moreover have "walletRecord ?w' = Some ?r'"
      by (simp add: updateWalletStore_saved)
    moreover have "effects ?w' = effects w @ [NetworksStore_load, NetworksStore_load] @
                    saved w ?r' @ [Emit_chainChanged c (context_origin ctx)]"
      by (simp add: updateWalletStore_saved)
    moreover have "Model_getChainForOrigin ?r' (context_origin ctx) = c"
      by (simp add: getChainForOrigin_setChainForOrigin)
    ultimately
    show "\<exists>w'. wallet_switchEthereumChain env w chainIdParameter ctx = (Inr (), w') \<and>
                  walletRecord w' = Some ?r' \<and>
                  Model_getChainForOrigin ?r' (context_origin ctx) = c \<and>
                  effects w' =
                    effects w @ [NetworksStore_load, NetworksStore_load] @
                    saved w ?r' @ [Emit_chainChanged c (context_origin ctx)]"
      by blast
  qed
qed

theorem wallet_switchEthereumChain_noop_or_immediate_witness:
  "wallet_switchEthereumChain env_example wallet_example (ChainIdNumber 1) context_example =
     (Inr (), perform [NetworksStore_load] wallet_example) \<and>
   fst (wallet_switchEthereumChain env_example wallet_example (ChainIdNumber 137)
          context_example) = Inr () \<and>
   walletRecord (snd (wallet_switchEthereumChain env_example wallet_example (ChainIdNumber 137)
                        context_example)) =
     Some (record_example
             \<lparr>permissions :=
                [(''https://example.com'',
                  \<lparr>addresses = [''0xAbC1''], chain = Some ''polygon''\<rparr>)]\<rparr>) \<and>
   effects (snd (wallet_switchEthereumChain env_example wallet_example (ChainIdNumber 137)
                   context_example)) =
     [NetworksStore_load, NetworksStore_load,
      WalletStore_save ''user-1'' ''storage-key''
        (record_example
           \<lparr>permissions :=
              [(''https://example.com'',
                \<lparr>addresses = [''0xAbC1''], chain = Some ''polygon''\<rparr>)]\<rparr>),
      Emit_chainChanged ''polygon'' ''https://example.com'']"
proof -
  have pre:
    "readCurrentAddress wallet_example = Some ''0xAbC1''"
    "allowedOrigin env_example wallet_example context_example ''0xAbC1'' = Inr True"
    "walletRecord wallet_example = Some record_example"
    "fst (getChainIdForOrigin env_example wallet_example (context_origin context_example)) =
       Inr ''0x1''"
    by code_simp+
  have hex:
    "hexValue env_example (ChainIdNumber 1) = Inr ''0x1''"
    "hexValue env_example (ChainIdNumber 137) = Inr ''0x89''"
    by (simp_all add: env_example_def)
  have reg:
    "''0x89'' \<noteq> ''0x1'' \<and> networksStore_load env_example = Inr networks_example \<and>
     getChainById networks_example ''0x89'' = Inr ''polygon''"
    by (simp add: env_example_def networks_example_def)
  have made:
    "context_origin context_example = ''https://example.com''"
    "Model_setChainForOrigin record_example ''polygon'' ''https://example.com'' =
       record_example
         \<lparr>permissions :=
            [(''https://example.com'', \<lparr>addresses = [''0xAbC1''], chain = Some ''polygon''\<rparr>)]\<rparr>"
    "effects wallet_example = []"
    "saved wallet_example
       (record_example
          \<lparr>permissions :=
             [(''https://example.com'', \<lparr>addresses = [''0xAbC1''], chain = Some ''polygon''\<rparr>)]\<rparr>) =
     [WalletStore_save ''user-1'' ''storage-key''
        (record_example
           \<lparr>permissions :=
              [(''https://example.com'',
                \<lparr>addresses = [''0xAbC1''], chain = Some ''polygon''\<rparr>)]\<rparr>)]"
    by (simp_all add: context_origin_def context_example_def Model_setChainForOrigin_def
        record_example_def wallet_example_def saved_def)
  from wallet_switchEthereumChain_noop_or_immediate
         [OF pre(1) pre(2) hex(1) pre(3) pre(4), of networks_example "''ethereum''"]
  have same: "wallet_switchEthereumChain env_example wallet_example (ChainIdNumber 1)
                context_example = (Inr (), perform [NetworksStore_load] wallet_example)"
    by simp
  from reg wallet_switchEthereumChain_noop_or_immediate
         [OF pre(1) pre(2) hex(2) pre(3) pre(4), of networks_example "''polygon''"]
  obtain w' where
    "wallet_switchEthereumChain env_example wallet_example (ChainIdNumber 137) context_example =
       (Inr (), w')"
    "walletRecord w' =
       Some (Model_setChainForOrigin record_example ''polygon'' (context_origin context_example))"
    "effects w' =
       effects wallet_example @ [NetworksStore_load, NetworksStore_load] @
       saved wallet_example
         (Model_setChainForOrigin record_example ''polygon'' (context_origin context_example)) @
       [Emit_chainChanged ''polygon'' (context_origin context_example)]"
    by blast
  with same made show ?thesis by simp
qed

subsection \<open>Approving a request for accounts\<close>

lemma walletManager_addPermission [simp]:
  "walletManager (Model_addPermission r a orig) = walletManager r"
  by (simp add: Model_addPermission_def split: option.splits)

text \<open>
  C10. The confirmation window resolves with the address \<open>a\<close>, while the controller has
  a record and a current address. If \<open>a\<close> differs from the current address after
  \<open>normalizeAddress\<close>, and a wallet of the record has the address \<open>a\<close> (the record model
  refuses any other), then \<open>setCurrentAddress\<close> gives a record whose current address is
  \<open>a\<close>, the permission is added to that record, and the effects come in this order: the
  write and the event of the new current address, then the write and the event of the
  permission. If \<open>a\<close> is the current address up to case, the permission is added to the
  record as it was, the current address is the same as before, and there is no event of a
  new current address.
\<close>

theorem eth_requestAccounts_approval_current_address:
  assumes rec: "walletRecord w = Some r"
    and cur: "readCurrentAddress w = Some current"
    and a: "a \<noteq> []"
  shows "(normalizeAddress a \<noteq> normalizeAddress current \<and> Model_getWalletByAddress r a \<noteq> None \<longrightarrow>
            (\<exists>res w' r1.
               eth_requestAccounts_onResolve env w ctx orig (Some a) = (res, w') \<and>
               Model_setCurrentAddress r a = Inr r1 \<and>
               currentAddress (walletManager r1) = Some a \<and>
               walletRecord w' = Some (Model_addPermission r1 a orig) \<and>
               readCurrentAddress w' = Some a \<and>
               effects w' =
                 effects w @ saved w r1 @ [Emit_currentAddressChange [a]] @
                 saved w (Model_addPermission r1 a orig) @ [Emit_permissionsUpdated])) \<and>
         (normalizeAddress a = normalizeAddress current \<longrightarrow>
            (\<exists>res w'.
               eth_requestAccounts_onResolve env w ctx orig (Some a) = (res, w') \<and>
               walletRecord w' = Some (Model_addPermission r a orig) \<and>
               readCurrentAddress w' = Some current \<and>
               effects w' =
                 effects w @ saved w (Model_addPermission r a orig) @ [Emit_permissionsUpdated]))"
proof (intro conjI impI)
  assume d: "normalizeAddress a \<noteq> normalizeAddress current \<and> Model_getWalletByAddress r a \<noteq> None"
  let ?moved = "r\<lparr>walletManager := (walletManager r)\<lparr>currentAddress := Some a\<rparr>\<rparr>"
  let ?granted = "Model_addPermission ?moved a orig"
  from d have s: "Model_setCurrentAddress r a = Inr ?moved"
    by (auto simp: Model_setCurrentAddress_def)
  let ?first = "perform [Emit_currentAddressChange [a]]
                  (snd (updateWalletStore (w\<lparr>walletRecord := Some ?moved\<rparr>) ?moved))"
  let ?second = "perform [Emit_permissionsUpdated]
                   (snd (updateWalletStore (?first\<lparr>walletRecord := Some ?granted\<rparr>) ?granted))"
  from a have on: "or_null (Some a) = Some a" by (simp add: or_null_def)
  from rec s a on have sc: "setCurrentAddress env w a INTERNAL_SYMBOL_CONTEXT = (None, ?first)"
    by (simp add: setCurrentAddress_def verifyInternalOrigin_def INTERNAL_SYMBOL_CONTEXT_def Let_def)
  have "walletRecord ?first = Some ?moved"
    by (simp add: updateWalletStore_saved)
  then have ao: "snd (acceptOrigin ?first orig a) = ?second"
    by (simp add: acceptOrigin_def Let_def)
  from cur a d sc ao
  have "eth_requestAccounts_onResolve env w ctx orig (Some a) =
          (eth_accounts env ?second ctx, ?second)"
    by (simp add: eth_requestAccounts_onResolve_def ensureCurrentAddress_def Let_def)
  moreover have "walletRecord ?second = Some ?granted"
    by (simp add: updateWalletStore_saved)
  moreover from on have "readCurrentAddress ?second = Some a"
    by (simp add: readCurrentAddress_def updateWalletStore_saved)
  moreover have "effects ?second = effects w @ saved w ?moved @ [Emit_currentAddressChange [a]] @
                 saved w ?granted @ [Emit_permissionsUpdated]"
    by (simp add: updateWalletStore_saved)
  ultimately show "\<exists>res w' r1.
               eth_requestAccounts_onResolve env w ctx orig (Some a) = (res, w') \<and>
               Model_setCurrentAddress r a = Inr r1 \<and>
               currentAddress (walletManager r1) = Some a \<and>
               walletRecord w' = Some (Model_addPermission r1 a orig) \<and>
               readCurrentAddress w' = Some a \<and>
               effects w' =
                 effects w @ saved w r1 @ [Emit_currentAddressChange [a]] @
                 saved w (Model_addPermission r1 a orig) @ [Emit_permissionsUpdated]"
    using s
    by (intro exI [of _ "eth_accounts env ?second ctx"] exI [of _ ?second] exI [of _ ?moved]) simp
next
  assume e: "normalizeAddress a = normalizeAddress current"
  let ?granted = "Model_addPermission r a orig"
  let ?second = "perform [Emit_permissionsUpdated]
                   (snd (updateWalletStore (w\<lparr>walletRecord := Some ?granted\<rparr>) ?granted))"
  from rec have ao: "snd (acceptOrigin w orig a) = ?second"
    by (simp add: acceptOrigin_def Let_def)
  from cur a e ao
  have "eth_requestAccounts_onResolve env w ctx orig (Some a) =
          (eth_accounts env ?second ctx, ?second)"
    by (simp add: eth_requestAccounts_onResolve_def ensureCurrentAddress_def Let_def)
  moreover have "walletRecord ?second = Some ?granted"
    by (simp add: updateWalletStore_saved)
  moreover from cur rec have "readCurrentAddress ?second = Some current"
    by (simp add: readCurrentAddress_def updateWalletStore_saved)
  moreover have "effects ?second = effects w @ saved w ?granted @ [Emit_permissionsUpdated]"
    by (simp add: updateWalletStore_saved)
  ultimately show "\<exists>res w'.
               eth_requestAccounts_onResolve env w ctx orig (Some a) = (res, w') \<and>
               walletRecord w' = Some (Model_addPermission r a orig) \<and>
               readCurrentAddress w' = Some current \<and>
               effects w' =
                 effects w @ saved w (Model_addPermission r a orig) @ [Emit_permissionsUpdated]"
    by blast
qed

theorem eth_requestAccounts_approval_current_address_witness:
  "readCurrentAddress wallet_example = Some ''0xAbC1'' \<and>
   readCurrentAddress
     (snd (eth_requestAccounts_onResolve env_example wallet_example context_stranger
             ''https://stranger.example'' (Some ''0xdEf2''))) = Some ''0xdEf2'' \<and>
   map (\<lambda>e. case e of Emit_currentAddressChange as \<Rightarrow> 1 | Emit_permissionsUpdated \<Rightarrow> 2 | _ \<Rightarrow> 0)
     (effects
        (snd (eth_requestAccounts_onResolve env_example wallet_example context_stranger
                ''https://stranger.example'' (Some ''0xdEf2'')))) = [0, 1, 0, 2 :: nat] \<and>
   readCurrentAddress
     (snd (eth_requestAccounts_onResolve env_example wallet_example context_stranger
             ''https://stranger.example'' (Some ''0xABC1''))) = Some ''0xAbC1'' \<and>
   map (\<lambda>e. case e of Emit_currentAddressChange as \<Rightarrow> 1 | Emit_permissionsUpdated \<Rightarrow> 2 | _ \<Rightarrow> 0)
     (effects
        (snd (eth_requestAccounts_onResolve env_example wallet_example context_stranger
                ''https://stranger.example'' (Some ''0xABC1'')))) = [0, 2 :: nat]"
proof -
  have pre:
    "walletRecord wallet_example = Some record_example"
    "readCurrentAddress wallet_example = Some ''0xAbC1''"
    by code_simp+
  have ne: "''0xdEf2'' \<noteq> []" "''0xABC1'' \<noteq> []" by simp_all
  have other:
    "normalizeAddress ''0xdEf2'' \<noteq> normalizeAddress ''0xAbC1'' \<and>
     Model_getWalletByAddress record_example ''0xdEf2'' \<noteq> None"
    by code_simp
  have same: "normalizeAddress ''0xABC1'' = normalizeAddress ''0xAbC1''"
    by code_simp
  have st: "effects wallet_example = []"
    "\<And>r. saved wallet_example r = [WalletStore_save ''user-1'' ''storage-key'' r]"
    by (simp_all add: wallet_example_def saved_def)
  from other
    eth_requestAccounts_approval_current_address
      [OF pre(1) pre(2) ne(1), of env_example context_stranger "''https://stranger.example''"]
  obtain res w' r1 where
    "eth_requestAccounts_onResolve env_example wallet_example context_stranger
       ''https://stranger.example'' (Some ''0xdEf2'') = (res, w')"
    "readCurrentAddress w' = Some ''0xdEf2''"
    "effects w' =
       effects wallet_example @ saved wallet_example r1 @ [Emit_currentAddressChange [''0xdEf2'']] @
       saved wallet_example (Model_addPermission r1 ''0xdEf2'' ''https://stranger.example'') @
       [Emit_permissionsUpdated]"
    by blast
  then have moved:
    "readCurrentAddress
       (snd (eth_requestAccounts_onResolve env_example wallet_example context_stranger
               ''https://stranger.example'' (Some ''0xdEf2''))) = Some ''0xdEf2''"
    "map (\<lambda>e. case e of Emit_currentAddressChange as \<Rightarrow> 1 | Emit_permissionsUpdated \<Rightarrow> 2 | _ \<Rightarrow> 0)
       (effects
          (snd (eth_requestAccounts_onResolve env_example wallet_example context_stranger
                  ''https://stranger.example'' (Some ''0xdEf2'')))) = [0, 1, 0, 2 :: nat]"
    by (simp_all add: st)
  from same
    eth_requestAccounts_approval_current_address
      [OF pre(1) pre(2) ne(2), of env_example context_stranger "''https://stranger.example''"]
  obtain res' w'' where
    "eth_requestAccounts_onResolve env_example wallet_example context_stranger
       ''https://stranger.example'' (Some ''0xABC1'') = (res', w'')"
    "readCurrentAddress w'' = Some ''0xAbC1''"
    "effects w'' =
       effects wallet_example @
       saved wallet_example (Model_addPermission record_example ''0xABC1'' ''https://stranger.example'') @
       [Emit_permissionsUpdated]"
    by blast
  then have kept:
    "readCurrentAddress
       (snd (eth_requestAccounts_onResolve env_example wallet_example context_stranger
               ''https://stranger.example'' (Some ''0xABC1''))) = Some ''0xAbC1''"
    "map (\<lambda>e. case e of Emit_currentAddressChange as \<Rightarrow> 1 | Emit_permissionsUpdated \<Rightarrow> 2 | _ \<Rightarrow> 0)
       (effects
          (snd (eth_requestAccounts_onResolve env_example wallet_example context_stranger
                  ''https://stranger.example'' (Some ''0xABC1'')))) = [0, 2 :: nat]"
    by (simp_all add: st)
  from pre(2) moved kept show ?thesis by simp
qed

subsection \<open>The session key and its timeout\<close>


lemma syncWithWalletStore_session:
  "seedPhraseEncryptionKey (snd (syncWithWalletStore env w)) = seedPhraseEncryptionKey w"
  "seedPhraseExpiryTimer (snd (syncWithWalletStore env w)) = seedPhraseExpiryTimer w"
  "now (snd (syncWithWalletStore env w)) = now w"
  "encryptionKey (snd (syncWithWalletStore env w)) = encryptionKey w"
  by (auto simp: syncWithWalletStore_def Let_def split: option.splits sum.splits)

lemma updateCredentials_session:
  "seedPhraseEncryptionKey (snd (updateCredentials env w ident key sessionKey)) = sessionKey"
  "seedPhraseExpiryTimer (snd (updateCredentials env w ident key sessionKey)) =
     Some (now w + 1000 * 120)"
  "now (snd (updateCredentials env w ident key sessionKey)) = now w"
  "encryptionKey (snd (updateCredentials env w ident key sessionKey)) = Some key"
  by (simp_all add: updateCredentials_def syncWithWalletStore_session
      setExpirationForSeedPhraseEncryptionKey_def)

lemma step_keeps_deadline:
  assumes "\<not> reestablishes c"
    and "seedPhraseEncryptionKey w = None \<or> (seedPhraseExpiryTimer w = Some due \<and> now w < due)"
  shows "seedPhraseEncryptionKey (step env w c) = None \<or>
         (seedPhraseExpiryTimer (step env w c) = Some due \<and> now (step env w c) < due)"
  using assms
  by (cases c)
     (auto simp: removeSeedPhraseEncryptionKey_def elapse_def Let_def split: option.splits)

lemma step_clock:
  "\<not> reestablishes c \<Longrightarrow> now (step env w c) = now w + waited [c]"
  by (cases c)
     (auto simp: removeSeedPhraseEncryptionKey_def elapse_def Let_def split: option.splits)

lemma step_storage_key:
  "\<not> reestablishes c \<Longrightarrow> encryptionKey (step env w c) = encryptionKey w"
  by (cases c)
     (auto simp: removeSeedPhraseEncryptionKey_def elapse_def Let_def split: option.splits)

lemma waited_Cons: "waited (c # cs) = waited [c] + waited cs"
  by (cases c) simp_all

lemma run_Cons [simp]: "run env w (c # cs) = run env (step env w c) cs"
  by (simp add: run_def)

lemma run_Nil [simp]: "run env w [] = w"
  by (simp add: run_def)

lemma run_keeps_deadline:
  assumes "\<forall>c\<in>set cs. \<not> reestablishes c"
    and "seedPhraseEncryptionKey w = None \<or> (seedPhraseExpiryTimer w = Some due \<and> now w < due)"
  shows "seedPhraseEncryptionKey (run env w cs) = None \<or>
         (seedPhraseExpiryTimer (run env w cs) = Some due \<and> now (run env w cs) < due)"
  using assms
proof (induction cs arbitrary: w)
  case Nil
  then show ?case by simp
next
  case (Cons c cs)
  from Cons.prems have "\<not> reestablishes c" by simp
  from step_keeps_deadline [OF this Cons.prems(2)] Cons.prems(1)
  show ?case by (simp add: Cons.IH)
qed

lemma run_clock:
  "\<forall>c\<in>set cs. \<not> reestablishes c \<Longrightarrow> now (run env w cs) = now w + waited cs"
proof (induction cs arbitrary: w)
  case Nil
  then show ?case by simp
next
  case (Cons c cs)
  then show ?case
    by (simp add: step_clock waited_Cons [of c cs])
qed

lemma run_storage_key:
  "\<forall>c\<in>set cs. \<not> reestablishes c \<Longrightarrow> encryptionKey (run env w cs) = encryptionKey w"
  by (induction cs arbitrary: w) (simp_all add: step_storage_key)

lemma run_stays_absent:
  "\<forall>c\<in>set cs. \<not> reestablishes c \<Longrightarrow> seedPhraseEncryptionKey w = None \<Longrightarrow>
   seedPhraseEncryptionKey (run env w cs) = None"
  using run_keeps_deadline [of cs w 0 env] by simp

lemma run_after_clear:
  assumes "\<forall>c\<in>set cs. \<not> reestablishes c"
    and "Call_removeSeedPhraseEncryptionKey \<in> set cs"
  shows "seedPhraseEncryptionKey (run env w cs) = None"
  using assms
proof (induction cs arbitrary: w)
  case Nil
  then show ?case by simp
next
  case (Cons c cs)
  show ?case
  proof (cases "c = Call_removeSeedPhraseEncryptionKey")
    case True
    then have "seedPhraseEncryptionKey (step env w c) = None"
      by (simp add: removeSeedPhraseEncryptionKey_def)
    with Cons.prems(1) show ?thesis by (simp add: run_stays_absent)
  next
    case False
    with Cons show ?thesis by simp
  qed
qed

text \<open>
  The credentials are established, and then comes any history of calls in which they are
  not established again, and in which either the waits add up to 120 seconds or more, or
  the session key is removed. After it the session key is absent, the storage encryption
  key is still the one that was given, and the two reveal methods throw for every caller:
  the exception of the first guard that refuses the call, and \<open>SessionExpired\<close> when
  both guards let it pass.
\<close>

lemma session_key_expiry_outcome:
  assumes quiet: "\<forall>c\<in>set cs. \<not> reestablishes c"
    and over: "1000 * 120 \<le> waited cs \<or> Call_removeSeedPhraseEncryptionKey \<in> set cs"
  shows "seedPhraseEncryptionKey
           (run env (snd (updateCredentials env w ident key sessionKey)) cs) = None \<and>
         encryptionKey (run env (snd (updateCredentials env w ident key sessionKey)) cs) =
           Some key \<and>
         getPrivateKey env (run env (snd (updateCredentials env w ident key sessionKey)) cs)
             addr ctx =
           Inl (case verifyInternalOrigin env ctx of
                  Some e \<Rightarrow> e
                | None \<Rightarrow>
                    (case walletRecord
                            (run env (snd (updateCredentials env w ident key sessionKey)) cs) of
                       None \<Rightarrow> RecordNotFound
                     | Some r \<Rightarrow> SessionExpired)) \<and>
         getRecoveryPhrase env (run env (snd (updateCredentials env w ident key sessionKey)) cs)
             groupId ctx =
           Inl (case verifyInternalOrigin env ctx of
                  Some e \<Rightarrow> e
                | None \<Rightarrow>
                    (case walletRecord
                            (run env (snd (updateCredentials env w ident key sessionKey)) cs) of
                       None \<Rightarrow> RecordNotFound
                     | Some r \<Rightarrow> SessionExpired))"
proof -
  let ?start = "snd (updateCredentials env w ident key sessionKey)"
  let ?final = "run env ?start cs"
  have absent: "seedPhraseEncryptionKey ?final = None"
  proof (cases "Call_removeSeedPhraseEncryptionKey \<in> set cs")
    case True
    with quiet show ?thesis by (rule run_after_clear)
  next
    case False
    with over have long: "1000 * 120 \<le> waited cs" by simp
    have "seedPhraseEncryptionKey ?start = None \<or>
          (seedPhraseExpiryTimer ?start = Some (now w + 1000 * 120) \<and> now ?start < now w + 1000 * 120)"
      by (simp add: updateCredentials_session)
    from run_keeps_deadline [OF quiet this]
    have "seedPhraseEncryptionKey ?final = None \<or> now ?final < now w + 1000 * 120" by blast
    moreover from quiet have "now ?final = now w + waited cs"
      by (simp add: run_clock updateCredentials_session)
    ultimately show ?thesis using long by auto
  qed
  moreover from quiet have "encryptionKey ?final = Some key"
    by (simp add: run_storage_key updateCredentials_session)
  moreover from absent have "getPrivateKey env ?final addr ctx =
      Inl (case verifyInternalOrigin env ctx of Some e \<Rightarrow> e
           | None \<Rightarrow> (case walletRecord ?final of None \<Rightarrow> RecordNotFound | Some r \<Rightarrow> SessionExpired))"
    by (simp add: getPrivateKey_def split: option.splits)
  moreover from absent have "getRecoveryPhrase env ?final groupId ctx =
      Inl (case verifyInternalOrigin env ctx of Some e \<Rightarrow> e
           | None \<Rightarrow> (case walletRecord ?final of None \<Rightarrow> RecordNotFound | Some r \<Rightarrow> SessionExpired))"
    by (simp add: getRecoveryPhrase_def split: option.splits)
  ultimately show ?thesis by blast
qed

text \<open>
  C2. The credentials are established, and then comes any history of calls in which they
  are not established again, and in which either the waits add up to 120 seconds or more
  (the timeout of the session key), or the session key is removed. The history may use the
  key at any moment: no use moves the time at which the key is removed. After it every
  call of \<open>getPrivateKey\<close> and of \<open>getRecoveryPhrase\<close> that the two guards of these
  methods admit, a call with an internal context on a controller that has its record,
  throws \<open>SessionExpired\<close>, whatever address or group it names, while the storage
  encryption key is still the one that was given.
\<close>

theorem session_key_expiry:
  assumes quiet: "\<forall>c\<in>set cs. \<not> reestablishes c"
    and over: "1000 * 120 \<le> waited cs \<or> Call_removeSeedPhraseEncryptionKey \<in> set cs"
    and internal: "verifyInternalOrigin env ctx = None"
    and loaded:
      "walletRecord (run env (snd (updateCredentials env w ident key sessionKey)) cs) = Some r"
  shows "seedPhraseEncryptionKey
           (run env (snd (updateCredentials env w ident key sessionKey)) cs) = None \<and>
         encryptionKey (run env (snd (updateCredentials env w ident key sessionKey)) cs) =
           Some key \<and>
         getPrivateKey env (run env (snd (updateCredentials env w ident key sessionKey)) cs)
             addr ctx = Inl SessionExpired \<and>
         getRecoveryPhrase env (run env (snd (updateCredentials env w ident key sessionKey)) cs)
             groupId ctx = Inl SessionExpired"
  using session_key_expiry_outcome
          [OF quiet over, of env w ident key sessionKey addr ctx groupId]
        internal loaded
  by simp

theorem session_key_expiry_witness:
  "waited two_minutes = 1000 * 120 \<and>
   seedPhraseEncryptionKey wallet_after_two_minutes = None \<and>
   encryptionKey wallet_after_two_minutes = Some ''storage-key'' \<and>
   getPrivateKey env_example wallet_after_two_minutes ''0xAbC1'' INTERNAL_SYMBOL_CONTEXT =
     Inl SessionExpired \<and>
   getRecoveryPhrase env_example wallet_after_two_minutes ''g1'' INTERNAL_SYMBOL_CONTEXT =
     Inl SessionExpired \<and>
   getPrivateKey env_example
     (run env_example
        (snd (updateCredentials env_example wallet_example ''user-1'' ''storage-key''
                (Some (CryptoKey ''session''))))
        [Wait 60000])
     ''0xAbC1'' INTERNAL_SYMBOL_CONTEXT = Inr ''0x01''"
proof -
  have quiet: "\<forall>c\<in>set two_minutes. \<not> reestablishes c"
    by (simp add: two_minutes_def)
  have long: "waited two_minutes = 1000 * 120"
    by (simp add: two_minutes_def)
  then have over:
    "1000 * 120 \<le> waited two_minutes \<or> Call_removeSeedPhraseEncryptionKey \<in> set two_minutes"
    by simp
  have internal: "verifyInternalOrigin env_example INTERNAL_SYMBOL_CONTEXT = None"
    by (simp add: verifyInternalOrigin_def INTERNAL_SYMBOL_CONTEXT_def)
  have loaded: "walletRecord wallet_after_two_minutes = Some record_example"
    by (simp add: wallet_after_two_minutes_def run_def two_minutes_def updateCredentials_def
        syncWithWalletStore_def setExpirationForSeedPhraseEncryptionKey_def env_example_def
        wallet_example_def elapse_def perform_def removeSeedPhraseEncryptionKey_def Let_def)
  have before:
    "getPrivateKey env_example
       (run env_example
          (snd (updateCredentials env_example wallet_example ''user-1'' ''storage-key''
                  (Some (CryptoKey ''session''))))
          [Wait 60000])
       ''0xAbC1'' INTERNAL_SYMBOL_CONTEXT = Inr ''0x01''"
    by (simp add: run_def updateCredentials_def syncWithWalletStore_def
        setExpirationForSeedPhraseEncryptionKey_def env_example_def wallet_example_def
        elapse_def perform_def Let_def getPrivateKey_def verifyInternalOrigin_def
        INTERNAL_SYMBOL_CONTEXT_def Model_getWalletByAddress_def record_example_def
        container_two_def wallet_main_def wallet_second_def getWalletByAddress_def
        toLowerCase_def lower_char_def)
  from loaded have held:
    "walletRecord
       (run env_example
          (snd (updateCredentials env_example wallet_example ''user-1'' ''storage-key''
                  (Some (CryptoKey ''session''))))
          two_minutes) = Some record_example"
    by (simp add: wallet_after_two_minutes_def)
  from session_key_expiry [OF quiet over internal held, of "''0xAbC1''" "''g1''"]
    long before
  show ?thesis
    by (simp add: wallet_after_two_minutes_def)
qed

end
